theory Spec2Isabelle
  imports Complex_Main "HOL-Library.AList" "HOL-Library.Char_ord" "HOL-Library.List_Lexorder"
    "HOL-Library.Log_Nat"
begin

section \<open>The JavaScript values the reporting code works on\<close>

text \<open>
  Strings are \<open>string\<close> (ASCII).  A number is the rational it denotes, and the sums of
  amounts are the sums of IEEE-754 doubles: the exact sum, rounded to the nearest double
  (\<open>fadd\<close> below).  The values \<open>Infinity\<close> and \<open>NaN\<close> are outside the model except where
  the code tests for them (\<open>isNaN\<close>, \<open>Number.isFinite\<close>, \<open>|| 0\<close>), where they are an
  explicit alternative.  An object typed \<open>Record<string, number>\<close> is an association list
  in insertion order, looked up by its own keys; the properties that a plain object
  inherits (\<open>constructor\<close>, \<open>toString\<close> and the like) are not modelled.
\<close>

definition isSpace :: "char \<Rightarrow> bool" where
  "isSpace c = (c \<in> {CHR '' '', CHR 0x09, CHR 0x0A, CHR 0x0B, CHR 0x0C, CHR 0x0D})"

text \<open>\<open>String.prototype.trim\<close>.\<close>

definition trim :: "string \<Rightarrow> string" where
  "trim s = rev (dropWhile isSpace (rev (dropWhile isSpace s)))"

definition lowerChar :: "char \<Rightarrow> char" where
  "lowerChar c =
     (let n = (of_char c :: nat) in if 65 \<le> n \<and> n \<le> 90 then char_of (n + 32) else c)"

text \<open>\<open>String.prototype.toLowerCase\<close>.\<close>

definition toLowerCase :: "string \<Rightarrow> string" where
  "toLowerCase s = map lowerChar s"

text \<open>
  \<open>String.prototype.split\<close> with a regular expression that is a class of single
  characters: the pieces between the separators, empty pieces kept.
\<close>

fun split_chars :: "(char \<Rightarrow> bool) \<Rightarrow> string \<Rightarrow> string list" where
  "split_chars sep [] = [] # []"
| "split_chars sep (c # cs) =
     (if sep c then [] # split_chars sep cs
      else (case split_chars sep cs of
              [] \<Rightarrow> [c] # []
            | p # ps \<Rightarrow> (c # p) # ps))"

subsection \<open>Doubles\<close>

text \<open>The integer nearest to a rational, the even one of two that are equally near.\<close>

definition roundHalfEven :: "rat \<Rightarrow> int" where
  "roundHalfEven q =
     (let f = \<lfloor>q\<rfloor>; r = q - of_int f
      in if r < 1 / 2 then f else if r > 1 / 2 then f + 1 else if even f then f else f + 1)"

definition pow2 :: "int \<Rightarrow> rat" where
  "pow2 k = (if 0 \<le> k then 2 ^ nat k else 1 / 2 ^ nat (- k))"

text \<open>The exponent \<open>e\<close> of a non-zero number \<open>x\<close>: \<open>2 ^ e \<le> |x| < 2 ^ (e + 1)\<close>.\<close>

definition binaryExponent :: "rat \<Rightarrow> int" where
  "binaryExponent x =
     (case quotient_of \<bar>x\<bar> of
        (p, q) \<Rightarrow> (let b = bitlen p - bitlen q in if pow2 b \<le> \<bar>x\<bar> then b else b - 1))"

text \<open>
  The double nearest to a rational (binary64, round to nearest, ties to even): a multiple
  of the unit in the last place, which is \<open>2 ^ (e - 52)\<close> and never less than \<open>2 ^ -1074\<close>.
  (A result beyond the largest double would be an infinity and is outside the model.)
\<close>

definition toDouble :: "rat \<Rightarrow> rat" where
  "toDouble x =
     (if x = 0 then 0
      else (let u = pow2 (max (binaryExponent x - 52) (- 1074))
            in of_int (roundHalfEven (x / u)) * u))"

text \<open>\<open>a + b\<close> on doubles.\<close>

definition fadd :: "rat \<Rightarrow> rat \<Rightarrow> rat" where
  "fadd a b = toDouble (a + b)"

subsection \<open>\<open>Number(string)\<close> on decimal literals\<close>

definition isDigit :: "char \<Rightarrow> bool" where
  "isDigit c = (let n = (of_char c :: int) in 48 \<le> n \<and> n \<le> 57)"

definition digitsValue :: "string \<Rightarrow> int" where
  "digitsValue ds = foldl (\<lambda>a c. 10 * a + (of_char c - 48)) 0 ds"

definition allDigits :: "string \<Rightarrow> bool" where
  "allDigits ds = list_all isDigit ds"

definition isExpMark :: "char \<Rightarrow> bool" where
  "isExpMark c = (c = CHR ''e'' \<or> c = CHR ''E'')"

text \<open>
  The exponent part of a literal, after the mantissa: empty, or \<open>e\<close>/\<open>E\<close>, an optional
  sign and at least one digit.  \<open>None\<close> is a malformed exponent.
\<close>

fun unsignedExponent :: "string \<Rightarrow> int option" where
  "unsignedExponent ds = (if ds \<noteq> [] \<and> allDigits ds then Some (digitsValue ds) else None)"

fun exponentValue :: "string \<Rightarrow> int option" where
  "exponentValue [] = Some 0"
| "exponentValue (e # []) = None"
| "exponentValue (e # c # r) =
     (if c = CHR ''-'' then map_option uminus (unsignedExponent r)
      else if c = CHR ''+'' then unsignedExponent r
      else unsignedExponent (c # r))"

text \<open>The mantissa: digits with at most one point and at least one digit.\<close>

definition mantissaValue :: "string \<Rightarrow> rat option" where
  "mantissaValue m =
     (case (takeWhile (\<lambda>c. c \<noteq> CHR ''.'') m, drop 1 (dropWhile (\<lambda>c. c \<noteq> CHR ''.'') m)) of
        (ip, fp) \<Rightarrow>
          if allDigits ip \<and> allDigits fp \<and> ip @ fp \<noteq> []
          then Some (of_int (digitsValue ip) + of_int (digitsValue fp) / 10 ^ length fp)
          else None)"

definition scaleBy :: "rat \<Rightarrow> int \<Rightarrow> rat" where
  "scaleBy x k = (if 0 \<le> k then x * 10 ^ nat k else x / 10 ^ nat (- k))"

definition unsignedValue :: "string \<Rightarrow> rat option" where
  "unsignedValue body =
     (case mantissaValue (takeWhile (\<lambda>c. \<not> isExpMark c) body) of
        None \<Rightarrow> None
      | Some x \<Rightarrow>
          (case exponentValue (dropWhile (\<lambda>c. \<not> isExpMark c) body) of
             None \<Rightarrow> None
           | Some k \<Rightarrow> Some (scaleBy x k)))"

fun signedValue :: "string \<Rightarrow> rat option" where
  "signedValue [] = Some 0"
| "signedValue (c # r) =
     (if c = CHR ''-'' then map_option uminus (unsignedValue r)
      else if c = CHR ''+'' then unsignedValue r
      else unsignedValue (c # r))"

text \<open>
  \<open>Number(s)\<close> for a string: \<open>None\<close> is \<open>NaN\<close>.  Surrounding white space is ignored,
  the empty string is 0, and a signed decimal literal with an optional fraction and
  exponent is the double nearest to its value.  (Hexadecimal, octal and binary literals
  and \<open>Infinity\<close> are not read by this model.)
\<close>

definition Number :: "string \<Rightarrow> rat option" where
  "Number s = map_option toDouble (signedValue (trim s))"

text \<open>
  \<open>parseAmount\<close> of \<open>lib/formatters\<close>, on the optional string a case field holds:
  a falsy value (absent or empty) is 0, dollar signs and commas are removed, and a text
  that \<open>Number\<close> does not read is 0.
\<close>

definition parseAmount :: "string option \<Rightarrow> rat" where
  "parseAmount v =
     (case v of
        None \<Rightarrow> 0
      | Some s \<Rightarrow>
          if s = [] then 0
          else
            let sanitized = trim (filter (\<lambda>c. c \<noteq> CHR ''$'' \<and> c \<noteq> CHR '','') s)
            in (case Number sanitized of None \<Rightarrow> 0 | Some parsed \<Rightarrow> parsed))"

subsection \<open>Dates\<close>

datatype month_name = Jan | Feb | Mar | Apr | May | Jun | Jul | Aug | Sep | Oct | Nov | Dec

text \<open>The value of \<open>Date.prototype.getMonth\<close>: 0 for January up to 11 for December.\<close>

fun month_index :: "month_name \<Rightarrow> int" where
  "month_index Jan = 0" | "month_index Feb = 1" | "month_index Mar = 2"
| "month_index Apr = 3" | "month_index May = 4" | "month_index Jun = 5"
| "month_index Jul = 6" | "month_index Aug = 7" | "month_index Sep = 8"
| "month_index Oct = 9" | "month_index Nov = 10" | "month_index Dec = 11"

text \<open>
  A valid \<open>Date\<close> object, as the code observes it: its time value in milliseconds and
  the calendar year and month of the host's time zone.
\<close>

record jsdate =
  getTime :: int
  getFullYear :: int
  monthName :: month_name

definition getMonth :: "jsdate \<Rightarrow> int" where
  "getMonth d = month_index (monthName d)"

text \<open>
  What the host supplies: \<open>new Date(string)\<close> (\<open>None\<close> is an Invalid Date), the local
  calendar of a time value, and the collation of \<open>localeCompare\<close>.
\<close>

record runtime =
  Date_parse :: "string \<Rightarrow> jsdate option"
  calendar :: "int \<Rightarrow> int \<times> month_name"
  localeCompare :: "string \<Rightarrow> string \<Rightarrow> int"

text \<open>
  A date field of a record: a \<open>Date\<close> object (\<open>None\<close> when it is an Invalid Date), a
  number (\<open>None\<close> when it is not finite) or a string.
\<close>

datatype date_value = DateObj "jsdate option" | Serial "rat option" | Str string

text \<open>\<open>new Date(ms)\<close> for an integral number of milliseconds.\<close>

definition Date_of_time :: "runtime \<Rightarrow> int \<Rightarrow> jsdate option" where
  "Date_of_time rt ms =
     (if \<bar>ms\<bar> \<le> 8640000000000000
      then Some \<lparr>getTime = ms, getFullYear = fst (calendar rt ms), monthName = snd (calendar rt ms)\<rparr>
      else None)"

definition excelSerialToDate :: "runtime \<Rightarrow> rat option \<Rightarrow> jsdate option" where
  "excelSerialToDate rt serial =
     (case serial of
        None \<Rightarrow> None
      | Some x \<Rightarrow>
          (let ms = \<lfloor>(x - 25569) * 86400 * 1000 + 1 / 2\<rfloor>
           in Date_of_time rt ms))"

definition parseDateInput :: "runtime \<Rightarrow> date_value option \<Rightarrow> jsdate option" where
  "parseDateInput rt v =
     (case v of
        None \<Rightarrow> None
      | Some (DateObj d) \<Rightarrow> d
      | Some (Serial n) \<Rightarrow> excelSerialToDate rt n
      | Some (Str s) \<Rightarrow>
          (let trimmed = trim s in
           if trimmed = [] then None
           else
             let lower = toLowerCase trimmed in
             if lower = ''na'' \<or> lower = ''n/a'' then None
             else Date_parse rt trimmed))"

subsection \<open>Status normalisation and overdue days\<close>

definition statusNormalizeMap :: "(string \<times> string) list" where
  "statusNormalizeMap =
     [(''open'', ''Not confirmed''),
      (''open '', ''Not confirmed''),
      (''in progress'', ''In Progress''),
      (''in pipeline'', ''In Pipeline''),
      (''not accomodated'', ''Not accommodated''),
      (''not accommodated'', ''Not accommodated''),
      (''not doable'', ''Not doable''),
      (''not doable '', ''Not doable''),
      (''not confirmed'', ''Not confirmed''),
      (''not confirmed '', ''Not confirmed''),
      (''cancelled'', ''Cancelled''),
      (''canceled'', ''Cancelled''),
      (''cancelled '', ''Cancelled''),
      (''closed'', ''Closed'')]"

definition normalizeStatus :: "string option \<Rightarrow> string option" where
  "normalizeStatus status =
     (case status of
        None \<Rightarrow> None
      | Some s \<Rightarrow>
          if s = [] then None
          else
            let trimmed = trim s in
            if trimmed = [] then None
            else
              let lower = toLowerCase trimmed in
              (case map_of statusNormalizeMap lower of
                 Some canon \<Rightarrow> Some canon
               | None \<Rightarrow> Some trimmed))"

definition closedStatuses :: "string list" where
  "closedStatuses =
     [''Closed'', ''Delivered'', ''Cancelled'', ''Not accommodated'', ''Not doable'', ''Not confirmed'']"

definition closedStatusesSet :: "string set" where
  "closedStatusesSet = set (map toLowerCase closedStatuses)"

definition isActiveStatus :: "string option \<Rightarrow> bool" where
  "isActiveStatus status =
     (case normalizeStatus status of
        None \<Rightarrow> False
      | Some normalized \<Rightarrow> toLowerCase normalized \<notin> closedStatusesSet)"

text \<open>
  \<open>getOverdueBy\<close>; \<open>today\<close> is the time value of the current day's local midnight
  (\<open>new Date()\<close> after \<open>setHours(0, 0, 0, 0)\<close>).
\<close>

definition getOverdueBy :: "runtime \<Rightarrow> int \<Rightarrow> date_value option \<Rightarrow> string option \<Rightarrow> int" where
  "getOverdueBy rt today promisedDate status =
     (case parseDateInput rt promisedDate of
        None \<Rightarrow> 0
      | Some promised \<Rightarrow>
          if \<not> isActiveStatus status then 0
          else
            let diff = (today - getTime promised) div (1000 * 60 * 60 * 24)
            in if diff > 0 then diff else 0)"

section \<open>Case records and billing adjustments\<close>

text \<open>
  The fields of \<open>Case\<close> (\<open>lib/types\<close>) that the reporting code reads.  An optional
  field is \<open>None\<close> when it is \<open>undefined\<close>.
\<close>

record Case =
  dateReceived :: "date_value option"
  team :: "string option"
  status :: string
  office :: "string option"
  region :: "string option"
  promisedDateForDelivery :: "date_value option"
  amount :: "string option"
  type :: "string option"
  addOnIpDelivered :: "string option"
  addOnsBilling :: "string option"
  addOnsOnly :: "string option"

text \<open>
  \<open>BillingAdjustment\<close>; its fields \<open>month\<close>, \<open>year\<close>, \<open>type\<close> and \<open>amount\<close> carry the
  prefix \<open>adj_\<close> here, since \<open>MonthlySummary\<close> and \<open>Case\<close> use the same names.
\<close>

record BillingAdjustment =
  adj_id :: string
  adj_month :: int
  adj_year :: int
  adj_type :: string
  adj_amount :: rat
  reason :: string

text \<open>A string used as a condition: \<open>undefined\<close> and the empty string are falsy.\<close>

definition truthy :: "string option \<Rightarrow> bool" where
  "truthy v = (case v of None \<Rightarrow> False | Some s \<Rightarrow> s \<noteq> [])"

text \<open>\<open>v || d\<close> for an optional string.\<close>

definition orElse :: "string option \<Rightarrow> string \<Rightarrow> string" where
  "orElse v d = (case v of None \<Rightarrow> d | Some s \<Rightarrow> if s = [] then d else s)"

text \<open>\<open>v && v.trim() !== ''\<close>.\<close>

definition nonBlank :: "string option \<Rightarrow> bool" where
  "nonBlank v = (case v of None \<Rightarrow> False | Some s \<Rightarrow> s \<noteq> [] \<and> trim s \<noteq> [])"

text \<open>
  \<open>obj[k] = (obj[k] || 0) + a\<close> on a \<open>Record<string, number>\<close>, and the same on a \<open>Map\<close>
  with \<open>get\<close> and \<open>set\<close>: an existing entry keeps its place, a new key is appended, and
  the sum is a sum of doubles.  (\<open>v || 0\<close> is \<open>v\<close> for every number but \<open>NaN\<close>.)  A key
  that a plain object inherits, such as \<open>constructor\<close>, for which \<open>obj[k]\<close> is not a
  number, is outside the model.
\<close>

fun addTo :: "string \<Rightarrow> rat \<Rightarrow> (string \<times> rat) list \<Rightarrow> (string \<times> rat) list" where
  "addTo k a [] = [(k, fadd 0 a)]"
| "addTo k a ((k', v) # kvs) =
     (if k' = k then (k', fadd v a) # kvs else (k', v) # addTo k a kvs)"

section \<open>Sorting with a comparator\<close>

text \<open>
  \<open>Array.prototype.sort(cmp)\<close>, which is stable: an insertion sort that puts an element
  before the first one it does not have to follow (\<open>cmp x y \<le> 0\<close>).
\<close>

fun insertBy :: "('a \<Rightarrow> 'a \<Rightarrow> 'b::{zero,ord}) \<Rightarrow> 'a \<Rightarrow> 'a list \<Rightarrow> 'a list" where
  "insertBy cmp x [] = [x]"
| "insertBy cmp x (y # ys) = (if cmp x y \<le> 0 then x # y # ys else y # insertBy cmp x ys)"

definition sortBy :: "('a \<Rightarrow> 'a \<Rightarrow> 'b::{zero,ord}) \<Rightarrow> 'a list \<Rightarrow> 'a list" where
  "sortBy cmp xs = foldr (insertBy cmp) xs []"

section \<open>\<open>BillingManager\<close>: monthly and quarterly summaries\<close>

text \<open>
  \<open>MonthlySummary\<close>; its field \<open>total\<close> is \<open>total_m\<close> here (and \<open>total_q\<close> in a quarter's
  summary), \<open>total\<close> being a constant of HOL.
\<close>

record MonthlySummary =
  month :: int
  year :: int
  typeAmounts :: "(string \<times> rat) list"
  total_m :: rat

text \<open>
  \<open>summaryMap\<close>, a \<open>Map\<close> in insertion order.  Its key \<open>`${year}-${month}`\<close> is kept as
  the pair of the two numbers.
\<close>

type_synonym summaryMap = "((int \<times> int) \<times> MonthlySummary) list"

definition initSummaryMap :: "int \<Rightarrow> summaryMap" where
  "initSummaryMap selectedYear =
     map (\<lambda>m. ((selectedYear, m),
               \<lparr>month = m, year = selectedYear, typeAmounts = [], total_m = 0\<rparr>)) [1..12]"

definition addTypeAmount :: "Case \<Rightarrow> MonthlySummary \<Rightarrow> MonthlySummary" where
  "addTypeAmount c summary =
     (if truthy (amount c) \<and> truthy (type c)
      then summary\<lparr>typeAmounts := addTo (orElse (type c) ''Others'') (parseAmount (amount c))
                                      (typeAmounts summary),
                   total_m := fadd (total_m summary) (parseAmount (amount c))\<rparr>
      else summary)"

definition addAddOns :: "Case \<Rightarrow> MonthlySummary \<Rightarrow> MonthlySummary" where
  "addAddOns c summary =
     (if nonBlank (addOnsBilling c)
      then summary\<lparr>typeAmounts := addTo ''Add-ons'' (parseAmount (addOnsBilling c))
                                      (typeAmounts summary),
                   total_m := fadd (total_m summary) (parseAmount (addOnsBilling c))\<rparr>
      else summary)"

text \<open>
  The body of \<open>cases.forEach\<close>.  The summary of the case's month is updated in place;
  it exists for each of the twelve values of \<open>getMonth\<close>.
\<close>

definition addCase :: "runtime \<Rightarrow> int \<Rightarrow> summaryMap \<Rightarrow> Case \<Rightarrow> summaryMap" where
  "addCase rt selectedYear summaryMap c =
     (case parseDateInput rt (dateReceived c) of
        None \<Rightarrow> summaryMap
      | Some date \<Rightarrow>
          if getFullYear date \<noteq> selectedYear then summaryMap
          else AList.map_entry (selectedYear, getMonth date + 1)
                 (\<lambda>summary. addAddOns c (addTypeAmount c summary)) summaryMap)"

text \<open>The body of \<open>adjustments.forEach\<close>.\<close>

definition applyAdjustment :: "int \<Rightarrow> summaryMap \<Rightarrow> BillingAdjustment \<Rightarrow> summaryMap" where
  "applyAdjustment selectedYear summaryMap adj =
     (if adj_year adj \<noteq> selectedYear then summaryMap
      else
        (case map_of summaryMap (adj_year adj, adj_month adj) of
           None \<Rightarrow> summaryMap
         | Some _ \<Rightarrow>
             AList.map_entry (adj_year adj, adj_month adj)
               (\<lambda>summary. summary\<lparr>typeAmounts := addTo (adj_type adj) (adj_amount adj)
                                                     (typeAmounts summary),
                                  total_m := fadd (total_m summary) (adj_amount adj)\<rparr>) summaryMap))"

definition monthlySummary ::
  "runtime \<Rightarrow> Case list \<Rightarrow> int \<Rightarrow> BillingAdjustment list \<Rightarrow> MonthlySummary list" where
  "monthlySummary rt cases selectedYear adjustments =
     sortBy (\<lambda>a b. month a - month b)
       (map snd
          (foldl (applyAdjustment selectedYear)
             (foldl (addCase rt selectedYear) (initSummaryMap selectedYear) cases)
             adjustments))"

text \<open>\<open>typeTotals\<close>: the totals by type and the grand total over the months.\<close>

record TypeTotals =
  totals :: "(string \<times> rat) list"
  grandTotal :: rat

definition addEntry :: "TypeTotals \<Rightarrow> string \<times> rat \<Rightarrow> TypeTotals" where
  "addEntry acc e =
     \<lparr>totals = addTo (fst e) (snd e) (totals acc), grandTotal = fadd (grandTotal acc) (snd e)\<rparr>"

definition typeTotals :: "MonthlySummary list \<Rightarrow> TypeTotals" where
  "typeTotals ms =
     foldl (\<lambda>acc m. foldl addEntry acc (typeAmounts m)) \<lparr>totals = [], grandTotal = 0\<rparr> ms"

subsection \<open>Quarterly analysis\<close>

record QuarterSummary =
  quarter :: int
  typeAmounts_q :: "(string \<times> rat) list"
  total_q :: rat

type_synonym quarterMap = "((int \<times> int) \<times> QuarterSummary) list"

definition initQuarterMap :: "int \<Rightarrow> quarterMap" where
  "initQuarterMap selectedYear =
     map (\<lambda>q. ((selectedYear, q), \<lparr>quarter = q, typeAmounts_q = [], total_q = 0\<rparr>)) [1..4]"

definition addTypeAmountQ :: "Case \<Rightarrow> QuarterSummary \<Rightarrow> QuarterSummary" where
  "addTypeAmountQ c summary =
     (if truthy (amount c) \<and> truthy (type c)
      then summary\<lparr>typeAmounts_q := addTo (orElse (type c) ''Others'') (parseAmount (amount c))
                                        (typeAmounts_q summary),
                   total_q := fadd (total_q summary) (parseAmount (amount c))\<rparr>
      else summary)"

definition addAddOnsQ :: "Case \<Rightarrow> QuarterSummary \<Rightarrow> QuarterSummary" where
  "addAddOnsQ c summary =
     (if nonBlank (addOnsBilling c)
      then summary\<lparr>typeAmounts_q := addTo ''Add-ons'' (parseAmount (addOnsBilling c))
                                        (typeAmounts_q summary),
                   total_q := fadd (total_q summary) (parseAmount (addOnsBilling c))\<rparr>
      else summary)"

definition addCaseQ :: "runtime \<Rightarrow> int \<Rightarrow> quarterMap \<Rightarrow> Case \<Rightarrow> quarterMap" where
  "addCaseQ rt selectedYear quarterMap c =
     (case parseDateInput rt (dateReceived c) of
        None \<Rightarrow> quarterMap
      | Some date \<Rightarrow>
          if getFullYear date \<noteq> selectedYear then quarterMap
          else AList.map_entry (selectedYear, getMonth date div 3 + 1)
                 (\<lambda>summary. addAddOnsQ c (addTypeAmountQ c summary)) quarterMap)"

definition quarterlySummary :: "runtime \<Rightarrow> Case list \<Rightarrow> int \<Rightarrow> QuarterSummary list" where
  "quarterlySummary rt cases selectedYear =
     sortBy (\<lambda>a b. quarter a - quarter b)
       (map snd (foldl (addCaseQ rt selectedYear) (initQuarterMap selectedYear) cases))"

subsection \<open>One bucket seen alone\<close>

text \<open>
  What the two loops do to the summary of one month \<open>m\<close> of the year \<open>y\<close>: a case
  touches it when its date received falls in that month, an adjustment when it names
  that year and month.  The summaries are shown below to be exactly these cells.
\<close>

definition inBucket :: "runtime \<Rightarrow> int \<Rightarrow> int \<Rightarrow> Case \<Rightarrow> bool" where
  "inBucket rt y m c =
     (case parseDateInput rt (dateReceived c) of
        None \<Rightarrow> False
      | Some d \<Rightarrow> getFullYear d = y \<and> getMonth d + 1 = m)"

definition caseCell :: "runtime \<Rightarrow> int \<Rightarrow> int \<Rightarrow> MonthlySummary \<Rightarrow> Case \<Rightarrow> MonthlySummary" where
  "caseCell rt y m s c = (if inBucket rt y m c then addAddOns c (addTypeAmount c s) else s)"

definition adjCell :: "int \<Rightarrow> int \<Rightarrow> MonthlySummary \<Rightarrow> BillingAdjustment \<Rightarrow> MonthlySummary" where
  "adjCell y m s a =
     (if adj_year a = y \<and> adj_month a = m
      then s\<lparr>typeAmounts := addTo (adj_type a) (adj_amount a) (typeAmounts s),
             total_m := fadd (total_m s) (adj_amount a)\<rparr>
      else s)"

definition monthCell ::
  "runtime \<Rightarrow> Case list \<Rightarrow> int \<Rightarrow> BillingAdjustment list \<Rightarrow> int \<Rightarrow> MonthlySummary" where
  "monthCell rt cases y adjs m =
     foldl (adjCell y m)
       (foldl (caseCell rt y m) \<lparr>month = m, year = y, typeAmounts = [], total_m = 0\<rparr> cases) adjs"

definition inQuarter :: "runtime \<Rightarrow> int \<Rightarrow> int \<Rightarrow> Case \<Rightarrow> bool" where
  "inQuarter rt y q c =
     (case parseDateInput rt (dateReceived c) of
        None \<Rightarrow> False
      | Some d \<Rightarrow> getFullYear d = y \<and> getMonth d div 3 + 1 = q)"

definition caseCellQ :: "runtime \<Rightarrow> int \<Rightarrow> int \<Rightarrow> QuarterSummary \<Rightarrow> Case \<Rightarrow> QuarterSummary" where
  "caseCellQ rt y q s c = (if inQuarter rt y q c then addAddOnsQ c (addTypeAmountQ c s) else s)"

definition quarterCell :: "runtime \<Rightarrow> Case list \<Rightarrow> int \<Rightarrow> int \<Rightarrow> QuarterSummary" where
  "quarterCell rt cases y q =
     foldl (caseCellQ rt y q) \<lparr>quarter = q, typeAmounts_q = [], total_q = 0\<rparr> cases"

subsection \<open>A host for concrete runs\<close>

text \<open>
  A host in the UTC time zone that reads the ISO form \<open>YYYY-MM-DD\<close> and no other
  string, with the proleptic Gregorian calendar and the ordering of code units as
  collation.  The concrete runs below use it.
\<close>

definition monthOfIndex :: "int \<Rightarrow> month_name" where
  "monthOfIndex i =
     (if i = 0 then Jan else if i = 1 then Feb else if i = 2 then Mar else if i = 3 then Apr
      else if i = 4 then May else if i = 5 then Jun else if i = 6 then Jul
      else if i = 7 then Aug else if i = 8 then Sep else if i = 9 then Oct
      else if i = 10 then Nov else Dec)"

definition isLeap :: "int \<Rightarrow> bool" where
  "isLeap y = (y mod 4 = 0 \<and> (y mod 100 \<noteq> 0 \<or> y mod 400 = 0))"

definition daysInMonth :: "int \<Rightarrow> int \<Rightarrow> int" where
  "daysInMonth y m =
     (if m = 2 then (if isLeap y then 29 else 28)
      else if m = 4 \<or> m = 6 \<or> m = 9 \<or> m = 11 then 30 else 31)"

text \<open>Days from 1970-01-01 to the civil date \<open>y\<close>-\<open>m\<close>-\<open>d\<close>.\<close>

definition daysFromCivil :: "int \<Rightarrow> int \<Rightarrow> int \<Rightarrow> int" where
  "daysFromCivil y m d =
     (let y' = (if m \<le> 2 then y - 1 else y);
          era = y' div 400;
          yoe = y' - era * 400;
          doy = (153 * (if m > 2 then m - 3 else m + 9) + 2) div 5 + d - 1;
          doe = yoe * 365 + yoe div 4 - yoe div 100 + doy
      in era * 146097 + doe - 719468)"

text \<open>The civil year and month of a day count.\<close>

definition civilFromDays :: "int \<Rightarrow> int \<times> month_name" where
  "civilFromDays z =
     (let z' = z + 719468;
          era = z' div 146097;
          doe = z' - era * 146097;
          yoe = (doe - doe div 1460 + doe div 36524 - doe div 146096) div 365;
          doy = doe - (365 * yoe + yoe div 4 - yoe div 100);
          mp = (5 * doy + 2) div 153;
          m = (if mp < 10 then mp + 3 else mp - 9)
      in ((if m \<le> 2 then yoe + era * 400 + 1 else yoe + era * 400), monthOfIndex (m - 1)))"

definition isoDate :: "string \<Rightarrow> jsdate option" where
  "isoDate s =
     (if length s = 10 \<and> s ! 4 = CHR ''-'' \<and> s ! 7 = CHR ''-''
         \<and> allDigits (take 4 s) \<and> allDigits (take 2 (drop 5 s)) \<and> allDigits (drop 8 s)
      then
        (let y = digitsValue (take 4 s);
             m = digitsValue (take 2 (drop 5 s));
             d = digitsValue (drop 8 s)
         in if 1 \<le> m \<and> m \<le> 12 \<and> 1 \<le> d \<and> d \<le> daysInMonth y m
            then Some \<lparr>getTime = daysFromCivil y m d * 86400000,
                       getFullYear = y, monthName = monthOfIndex (m - 1)\<rparr>
            else None)
      else None)"

definition utcHost :: runtime where
  "utcHost =
     \<lparr>Date_parse = isoDate,
      calendar = (\<lambda>ms. civilFromDays (ms div 86400000)),
      localeCompare = (\<lambda>a b. if a < b then - 1 else if a = b then 0 else 1)\<rparr>"

text \<open>A case with nothing filled in, from which the concrete cases are made.\<close>

definition blankCase :: Case where
  "blankCase =
     \<lparr>dateReceived = None, team = None, status = [], office = None, region = None,
      promisedDateForDelivery = None, amount = None, type = None,
      addOnIpDelivered = None, addOnsBilling = None, addOnsOnly = None\<rparr>"

section \<open>\<open>BillingManager\<close>: the three categories of cases\<close>

text \<open>\<open>c.type && c.type !== ''\<close>.\<close>

definition hasType :: "Case \<Rightarrow> bool" where
  "hasType c = (case type c of None \<Rightarrow> False | Some t \<Rightarrow> t \<noteq> [])"

text \<open>\<open>c.addOnsBilling && c.addOnsBilling.trim() !== ''\<close>.\<close>

definition hasAddOns :: "Case \<Rightarrow> bool" where
  "hasAddOns c = nonBlank (addOnsBilling c)"

text \<open>\<open>c.addOnsOnly?.toLowerCase() === 'yes'\<close>.\<close>

definition isAddOnOnly :: "Case \<Rightarrow> bool" where
  "isAddOnOnly c = (case addOnsOnly c of None \<Rightarrow> False | Some v \<Rightarrow> toLowerCase v = ''yes'')"

text \<open>The guard of the loops: the date received parses and lies in the selected year.\<close>

definition inYear :: "runtime \<Rightarrow> int \<Rightarrow> Case \<Rightarrow> bool" where
  "inYear rt selectedYear c =
     (case parseDateInput rt (dateReceived c) of
        None \<Rightarrow> False
      | Some date \<Rightarrow> getFullYear date = selectedYear)"

record CategorizedCases =
  typeOnly :: "Case list"
  bundled :: "Case list"
  addonsOnly :: "Case list"

text \<open>The body of \<open>cases.forEach\<close> in \<open>categorizedCases\<close>.\<close>

definition categorize :: "runtime \<Rightarrow> int \<Rightarrow> CategorizedCases \<Rightarrow> Case \<Rightarrow> CategorizedCases" where
  "categorize rt selectedYear acc c =
     (if \<not> inYear rt selectedYear c then acc
      else if isAddOnOnly c \<and> hasAddOns c then acc\<lparr>addonsOnly := addonsOnly acc @ [c]\<rparr>
      else if hasType c \<and> hasAddOns c then acc\<lparr>bundled := bundled acc @ [c]\<rparr>
      else if hasType c \<and> \<not> hasAddOns c then acc\<lparr>typeOnly := typeOnly acc @ [c]\<rparr>
      else acc)"

definition categorizedCases :: "runtime \<Rightarrow> Case list \<Rightarrow> int \<Rightarrow> CategorizedCases" where
  "categorizedCases rt cases selectedYear =
     foldl (categorize rt selectedYear) \<lparr>typeOnly = [], bundled = [], addonsOnly = []\<rparr> cases"

section \<open>\<open>BillingManager\<close>: add-on analysis\<close>

text \<open>
  The revenues and shares of the add-on analysis are kept exact: they are those of the
  code up to the rounding of each sum and quotient.
\<close>

record AddOnData =
  count :: nat
  revenue :: rat

text \<open>
  The components listed in \<open>addOnIpDelivered\<close>:
  \<open>split(/[,+]/).map(a => a.trim()).filter(a => a)\<close>.
\<close>

definition addOnComponents :: "string \<Rightarrow> string list" where
  "addOnComponents s =
     filter (\<lambda>a. a \<noteq> []) (map trim (split_chars (\<lambda>ch. ch = CHR '','' \<or> ch = CHR ''+'') s))"

text \<open>
  One round of \<open>addOns.forEach\<close>: the entry of the component, or a fresh one, gains a
  count of 1 and the share \<open>addOnAmount / addOns.length\<close>.  \<open>Map.set\<close> keeps the place of
  an existing key and appends a new one.
\<close>

definition trackAddOn ::
  "rat \<Rightarrow> nat \<Rightarrow> (string \<times> AddOnData) list \<Rightarrow> string \<Rightarrow> (string \<times> AddOnData) list" where
  "trackAddOn addOnAmount n m addon =
     (let existing = (case map_of m addon of
                        None \<Rightarrow> \<lparr>count = 0, revenue = 0\<rparr>
                      | Some e \<Rightarrow> e)
      in AList.update addon
           \<lparr>count = count existing + 1, revenue = revenue existing + addOnAmount / of_nat n\<rparr>
           m)"

record AddonAccumulator =
  addOnMap :: "(string \<times> AddOnData) list"
  typeOnlyRevenue :: rat
  addOnOnlyRevenue :: rat
  bundledRevenue :: rat
  typeOnlyCount :: nat
  addOnOnlyCount :: nat
  bundledCount :: nat

text \<open>The categorisation part of the loop body of \<open>addonAnalysis\<close>.\<close>

definition countCategory :: "Case \<Rightarrow> AddonAccumulator \<Rightarrow> AddonAccumulator" where
  "countCategory c acc =
     (let typeAmount = (if hasType c \<and> \<not> isAddOnOnly c then parseAmount (amount c) else 0);
          addOnAmount = (if hasAddOns c then parseAmount (addOnsBilling c) else 0)
      in if isAddOnOnly c \<and> hasAddOns c
         then acc\<lparr>addOnOnlyRevenue := addOnOnlyRevenue acc + addOnAmount,
                  addOnOnlyCount := addOnOnlyCount acc + 1\<rparr>
         else if hasType c \<and> hasAddOns c
         then acc\<lparr>bundledRevenue := bundledRevenue acc + (typeAmount + addOnAmount),
                  bundledCount := bundledCount acc + 1\<rparr>
         else if hasType c \<and> \<not> hasAddOns c
         then acc\<lparr>typeOnlyRevenue := typeOnlyRevenue acc + typeAmount,
                  typeOnlyCount := typeOnlyCount acc + 1\<rparr>
         else acc)"

text \<open>The part of the loop body that tracks the individual add-ons.\<close>

definition trackAddOns :: "Case \<Rightarrow> (string \<times> AddOnData) list \<Rightarrow> (string \<times> AddOnData) list" where
  "trackAddOns c m =
     (case addOnIpDelivered c of
        None \<Rightarrow> m
      | Some delivered \<Rightarrow>
          if hasAddOns c \<and> delivered \<noteq> []
          then
            (let addOns = addOnComponents delivered
             in foldl (trackAddOn (parseAmount (addOnsBilling c)) (length addOns)) m addOns)
          else m)"

definition addonStep :: "runtime \<Rightarrow> int \<Rightarrow> AddonAccumulator \<Rightarrow> Case \<Rightarrow> AddonAccumulator" where
  "addonStep rt selectedYear acc c =
     (if \<not> inYear rt selectedYear c then acc
      else (countCategory c acc)\<lparr>addOnMap := trackAddOns c (addOnMap acc)\<rparr>)"

record TopAddOn =
  name :: string
  top_count :: nat
  top_revenue :: rat

text \<open>
  A quotient of two numbers with \<open>|| 0\<close> applied: \<open>NaN\<close> (0 / 0) has become 0, a
  non-zero number over 0 is an infinity.
\<close>

datatype quotient = Finite rat | PosInfinity | NegInfinity

definition quotientOrZero :: "rat \<Rightarrow> rat \<Rightarrow> quotient" where
  "quotientOrZero a b =
     (if b \<noteq> 0 then Finite (a / b)
      else if a = 0 then Finite 0
      else if a > 0 then PosInfinity else NegInfinity)"

record AddonAnalysis =
  an_typeOnlyRevenue :: rat
  an_addOnOnlyRevenue :: rat
  an_bundledRevenue :: rat
  an_typeOnlyCount :: nat
  an_addOnOnlyCount :: nat
  an_bundledCount :: nat
  totalRevenue :: rat
  totalAddOnRevenue :: rat
  topAddOns :: "TopAddOn list"
  addOnAttachmentRate :: quotient
  avgAddOnValue :: quotient

text \<open>
  \<open>addonAnalysis\<close>.  The fields of the result that repeat a variable of the loop carry
  the prefix \<open>an_\<close>, and \<open>count\<close> and \<open>revenue\<close> of a top add-on the prefix \<open>top_\<close>.
\<close>

definition addonAnalysis :: "runtime \<Rightarrow> Case list \<Rightarrow> int \<Rightarrow> AddonAnalysis" where
  "addonAnalysis rt cases selectedYear =
     (let acc = foldl (addonStep rt selectedYear)
                  \<lparr>addOnMap = [], typeOnlyRevenue = 0, addOnOnlyRevenue = 0, bundledRevenue = 0,
                   typeOnlyCount = 0, addOnOnlyCount = 0, bundledCount = 0\<rparr> cases;
          top = sortBy (\<lambda>a b. top_revenue b - top_revenue a)
                  (map (\<lambda>(n, d). \<lparr>name = n, top_count = count d, top_revenue = revenue d\<rparr>)
                     (addOnMap acc));
          totalAddOn = addOnOnlyRevenue acc
                       + foldl (\<lambda>sum c. sum + parseAmount (addOnsBilling c)) 0
                           (filter (\<lambda>c. inYear rt selectedYear c \<and> hasAddOns c) cases)
      in \<lparr>an_typeOnlyRevenue = typeOnlyRevenue acc,
          an_addOnOnlyRevenue = addOnOnlyRevenue acc,
          an_bundledRevenue = bundledRevenue acc,
          an_typeOnlyCount = typeOnlyCount acc,
          an_addOnOnlyCount = addOnOnlyCount acc,
          an_bundledCount = bundledCount acc,
          totalRevenue = typeOnlyRevenue acc + addOnOnlyRevenue acc + bundledRevenue acc,
          totalAddOnRevenue = totalAddOn,
          topAddOns = top,
          addOnAttachmentRate =
            (case quotientOrZero (of_nat (bundledCount acc))
                    (of_nat (typeOnlyCount acc + bundledCount acc)) of
               Finite r \<Rightarrow> Finite (r * 100)
             | q \<Rightarrow> q),
          avgAddOnValue =
            quotientOrZero totalAddOn (of_nat (addOnOnlyCount acc + bundledCount acc))\<rparr>)"

section \<open>\<open>CaseMatrix\<close>: the matrix of offices and the matrix of amounts\<close>

definition REGION_ORDER :: "string list" where
  "REGION_ORDER = [''Americas'', ''APAC'', ''EMEA'']"

definition UNKNOWN_REGION :: string where
  "UNKNOWN_REGION = ''(Unassigned Region)''"

definition UNKNOWN_OFFICE :: string where
  "UNKNOWN_OFFICE = ''(Blank Office)''"

text \<open>\<open>(c.region && c.region.trim()) || UNKNOWN_REGION\<close>, and the same for the office.\<close>

definition regionOf :: "Case \<Rightarrow> string" where
  "regionOf c = orElse (map_option trim (region c)) UNKNOWN_REGION"

definition officeOf :: "Case \<Rightarrow> string" where
  "officeOf c = orElse (map_option trim (office c)) UNKNOWN_OFFICE"

text \<open>\<open>if (!m.has(k)) m.set(k, v)\<close> on a \<open>Map\<close> in insertion order.\<close>

definition ensureKey :: "'k \<Rightarrow> 'v \<Rightarrow> ('k \<times> 'v) list \<Rightarrow> ('k \<times> 'v) list" where
  "ensureKey k v m = (if map_of m k = None then m @ [(k, v)] else m)"

text \<open>\<open>xs[i] += 1\<close>; the index is below the length wherever this is used.\<close>

definition bump :: "nat \<Rightarrow> nat list \<Rightarrow> nat list" where
  "bump i xs = xs[i := xs ! i + 1]"

type_synonym officeMap = "(string \<times> nat list \<times> nat) list"

definition countOffice :: "nat \<Rightarrow> nat \<Rightarrow> string \<Rightarrow> officeMap \<Rightarrow> officeMap" where
  "countOffice n i off om =
     AList.map_entry off (\<lambda>officeRow. (bump i (fst officeRow), snd officeRow + 1))
       (ensureKey off (replicate n 0, 0) om)"

definition countRegion ::
  "nat \<Rightarrow> nat \<Rightarrow> string \<Rightarrow> string \<Rightarrow> (string \<times> officeMap) list \<Rightarrow> (string \<times> officeMap) list" where
  "countRegion n i reg off rm =
     AList.map_entry reg (countOffice n i off) (ensureKey reg [] rm)"

datatype OfficeViewMode = Yearly | Quarterly | Monthly

text \<open>The number of columns of a view: four years, four quarters or twelve months.\<close>

definition columns :: "OfficeViewMode \<Rightarrow> nat" where
  "columns mode = (case mode of Monthly \<Rightarrow> 12 | _ \<Rightarrow> 4)"

text \<open>A list without its repetitions, in the order of first occurrence (\<open>new Set\<close>).\<close>

definition distinctInOrder :: "'a list \<Rightarrow> 'a list" where
  "distinctInOrder xs = rev (remdups (rev xs))"

text \<open>
  The years of the yearly view: the years of the dates that parse (\<open>filter(Boolean)\<close>
  drops \<open>null\<close> and the year 0), without repetition, latest first, four at most.
\<close>

definition availableYears :: "runtime \<Rightarrow> Case list \<Rightarrow> int list" where
  "availableYears rt cases =
     take 4
       (sortBy (\<lambda>a b. b - a)
          (distinctInOrder
             (filter (\<lambda>y. y \<noteq> 0)
                (List.map_filter (\<lambda>c. map_option getFullYear (parseDateInput rt (dateReceived c)))
                   cases))))"

text \<open>\<open>Array.prototype.indexOf\<close>, \<open>None\<close> for -1.\<close>

fun indexOf :: "'a list \<Rightarrow> 'a \<Rightarrow> nat option" where
  "indexOf [] x = None"
| "indexOf (y # ys) x = (if y = x then Some 0 else map_option Suc (indexOf ys x))"

text \<open>The column a case is counted in, \<open>None\<close> when the loop body returns early.\<close>

definition columnIndex ::
  "runtime \<Rightarrow> OfficeViewMode \<Rightarrow> int \<Rightarrow> int list \<Rightarrow> Case \<Rightarrow> nat option" where
  "columnIndex rt mode selectedYear years c =
     (case parseDateInput rt (dateReceived c) of
        None \<Rightarrow> None
      | Some date \<Rightarrow>
          (case mode of
             Yearly \<Rightarrow> indexOf years (getFullYear date)
           | Monthly \<Rightarrow>
               if getFullYear date \<noteq> selectedYear then None else Some (nat (getMonth date))
           | Quarterly \<Rightarrow>
               if getFullYear date \<noteq> selectedYear then None
               else Some (nat (min (getMonth date div 3) 3))))"

record MatrixAcc =
  regionMap :: "(string \<times> officeMap) list"
  columnTotals_acc :: "nat list"
  grandTotal_acc :: nat
  officesSet :: "string list"

definition countCase ::
  "runtime \<Rightarrow> OfficeViewMode \<Rightarrow> int \<Rightarrow> int list \<Rightarrow> MatrixAcc \<Rightarrow> Case \<Rightarrow> MatrixAcc" where
  "countCase rt mode selectedYear years acc c =
     (case columnIndex rt mode selectedYear years c of
        None \<Rightarrow> acc
      | Some i \<Rightarrow>
          \<lparr>regionMap = countRegion (columns mode) i (regionOf c) (officeOf c) (regionMap acc),
           columnTotals_acc = bump i (columnTotals_acc acc),
           grandTotal_acc = grandTotal_acc acc + 1,
           officesSet = (if officeOf c \<in> set (officesSet acc) then officesSet acc
                         else officesSet acc @ [officeOf c])\<rparr>)"

text \<open>
  \<open>OfficeRow\<close>, \<open>RegionRow\<close> and \<open>MatrixData\<close>; their fields carry the prefixes \<open>or_\<close>,
  \<open>rr_\<close> and \<open>md_\<close>, the interfaces sharing names with each other and with \<open>Case\<close>.
\<close>

record OfficeRow =
  or_office :: string
  or_quarters :: "nat list"
  or_total :: nat

record RegionRow =
  rr_region :: string
  rr_rows :: "OfficeRow list"
  rr_quarterTotals :: "nat list"
  rr_total :: nat

record MatrixData =
  md_regions :: "RegionRow list"
  md_quarterTotals :: "nat list"
  md_grandTotal :: nat
  md_officeCount :: nat
  md_caseCount :: nat
  md_availableYears :: "int list option"

text \<open>
  \<open>orderedRegions\<close>: the regions of \<open>REGION_ORDER\<close> that occur, then the other regions
  in the order of the keys of \<open>regionMap\<close>.
\<close>

definition orderedRegions :: "(string \<times> officeMap) list \<Rightarrow> string list" where
  "orderedRegions rm =
     filter (\<lambda>r. map_of rm r \<noteq> None) REGION_ORDER
     @ filter (\<lambda>r. r \<notin> set REGION_ORDER) (map fst rm)"

text \<open>
  The row of a region: its offices sorted with \<open>localeCompare\<close>, and the column totals
  (every row has as many columns as the totals).
\<close>

definition regionRow :: "runtime \<Rightarrow> nat \<Rightarrow> (string \<times> officeMap) list \<Rightarrow> string \<Rightarrow> RegionRow" where
  "regionRow rt n rm r =
     (let officeEntries =
            sortBy (\<lambda>a b. localeCompare rt (fst a) (fst b))
              (case map_of rm r of None \<Rightarrow> [] | Some om \<Rightarrow> om);
          rows = map (\<lambda>(off, data).
                        \<lparr>or_office = off, or_quarters = fst data, or_total = snd data\<rparr>)
                   officeEntries;
          colTotals = foldl (\<lambda>ts row. map (\<lambda>(t, k). t + k) (zip ts (or_quarters row)))
                        (replicate n 0) rows
      in \<lparr>rr_region = r, rr_rows = rows, rr_quarterTotals = colTotals,
          rr_total = foldl (\<lambda>sum v. sum + v) 0 colTotals\<rparr>)"

text \<open>\<open>matrix\<close>, for each of the three modes of the office view.\<close>

definition matrix :: "runtime \<Rightarrow> Case list \<Rightarrow> int \<Rightarrow> OfficeViewMode \<Rightarrow> MatrixData" where
  "matrix rt cases selectedYear mode =
     (let years = (if mode = Yearly then availableYears rt cases else []);
          acc = foldl (countCase rt mode selectedYear years)
                  \<lparr>regionMap = [], columnTotals_acc = replicate (columns mode) 0,
                   grandTotal_acc = 0, officesSet = []\<rparr> cases
      in \<lparr>md_regions = map (regionRow rt (columns mode) (regionMap acc))
                         (orderedRegions (regionMap acc)),
          md_quarterTotals = columnTotals_acc acc,
          md_grandTotal = grandTotal_acc acc,
          md_officeCount = length (officesSet acc),
          md_caseCount = grandTotal_acc acc,
          md_availableYears = (if mode = Yearly then Some years else None)\<rparr>)"

subsection \<open>The yearly matrix of amounts\<close>

text \<open>
  \<open>AmountMatrixRow\<close>.  The label \<open>year\<close> is the number it prints, and \<open>None\<close> for
  \<open>UNKNOWN_YEAR\<close>, the label \<open>'NA'\<close> of the cases whose date does not parse.
\<close>

record AmountMatrixRow =
  am_year :: "int option"
  regionTotals :: "(string \<times> rat) list"
  am_rowTotal :: rat

record AmountAcc =
  yearMap :: "(int option \<times> AmountMatrixRow) list"
  columnTotals_am :: "(string \<times> rat) list"
  grandTotal_am :: rat
  extraRegions :: "string list"

definition addAmount :: "runtime \<Rightarrow> AmountAcc \<Rightarrow> Case \<Rightarrow> AmountAcc" where
  "addAmount rt acc c =
     (let amt = parseAmount (amount c) in
      if amt = 0 then acc
      else
        let yr = map_option getFullYear (parseDateInput rt (dateReceived c));
            reg = regionOf c
        in \<lparr>yearMap =
               AList.map_entry yr
                 (\<lambda>row. row\<lparr>regionTotals := addTo reg amt (regionTotals row),
                            am_rowTotal := fadd (am_rowTotal row) amt\<rparr>)
                 (ensureKey yr \<lparr>am_year = yr, regionTotals = [], am_rowTotal = 0\<rparr> (yearMap acc)),
             columnTotals_am = addTo reg amt (columnTotals_am acc),
             grandTotal_am = fadd (grandTotal_am acc) amt,
             extraRegions =
               (if reg \<notin> set REGION_ORDER \<and> reg \<notin> set (extraRegions acc)
                then extraRegions acc @ [reg] else extraRegions acc)\<rparr>)"

text \<open>The comparator of the rows: \<open>'NA'\<close> last, the years ascending.\<close>

definition compareYearRows :: "AmountMatrixRow \<Rightarrow> AmountMatrixRow \<Rightarrow> int" where
  "compareYearRows a b =
     (case am_year a of
        None \<Rightarrow> 1
      | Some ya \<Rightarrow> (case am_year b of None \<Rightarrow> - 1 | Some yb \<Rightarrow> ya - yb))"

record AmountMatrixData =
  am_rows :: "AmountMatrixRow list"
  am_columnTotals :: "(string \<times> rat) list"
  am_grandTotal :: rat
  am_regions :: "string list"

text \<open>
  \<open>amountMatrix\<close>.  The default \<open>sort()\<close> of the extra regions orders strings by their
  code units.
\<close>

definition amountMatrix :: "runtime \<Rightarrow> Case list \<Rightarrow> AmountMatrixData" where
  "amountMatrix rt cases =
     (let acc = foldl (addAmount rt)
                  \<lparr>yearMap = [], columnTotals_am = [], grandTotal_am = 0, extraRegions = []\<rparr>
                  cases
      in \<lparr>am_rows = sortBy compareYearRows (map snd (yearMap acc)),
          am_columnTotals = columnTotals_am acc,
          am_grandTotal = grandTotal_am acc,
          am_regions =
            REGION_ORDER @ sort (filter (\<lambda>r. r \<notin> set REGION_ORDER) (extraRegions acc))\<rparr>)"

text \<open>Every row of \<open>yearMap\<close> carries the label it is stored under.\<close>

definition labelled :: "AmountAcc \<Rightarrow> bool" where
  "labelled acc = (\<forall>e\<in>set (yearMap acc). am_year (snd e) = fst e)"

subsection \<open>Reading the add-on map\<close>



text \<open>In how many of the three lists a case stands.\<close>

definition categoryCount :: "CategorizedCases \<Rightarrow> Case \<Rightarrow> nat" where
  "categoryCount r c = length (filter (\<lambda>l. c \<in> set l) [typeOnly r, bundled r, addonsOnly r])"

section \<open>The other aggregations over time\<close>

subsection \<open>\<open>BillingManager\<close>: several years\<close>

text \<open>
  \<open>availableYears\<close> of \<open>BillingManager\<close>: the years of the dates that parse, without
  repetition, latest first.  (The name without suffix is the list of that name inside
  \<open>matrix\<close>.)
\<close>

definition availableYears_bm :: "runtime \<Rightarrow> Case list \<Rightarrow> int list" where
  "availableYears_bm rt cases =
     sortBy (\<lambda>a b. b - a)
       (distinctInOrder
          (List.map_filter (\<lambda>c. map_option getFullYear (parseDateInput rt (dateReceived c)))
             cases))"

text \<open>
  \<open>multiYearSummary\<close>, \<open>multiYearQuarterly\<close> and \<open>multiYearAddonAnalysis\<close>: \<open>null\<close> when
  the mode does not ask for them or no year is selected, else \<open>yearsData\<close>, which
  holds for each selected year what the loop body - that of \<open>monthlySummary\<close>, of
  \<open>quarterlySummary\<close> and of \<open>addonAnalysis\<close>, with the year in place of the selected
  year - computes.  \<open>comparing\<close> is
  \<open>viewMode === 'analytics' && analyticsMode === 'compare'\<close>.  \<open>yearsData\<close> is an object
  that the code reads by year (\<open>map_of\<close>); a year selected twice is computed twice and
  holds the same value.
\<close>

definition multiYearSummary ::
  "runtime \<Rightarrow> Case list \<Rightarrow> int list \<Rightarrow> bool \<Rightarrow> bool \<Rightarrow> BillingAdjustment list
     \<Rightarrow> (int \<times> MonthlySummary list) list option" where
  "multiYearSummary rt cases selectedYears isMultiYearMode comparing adjustments =
     (if (\<not> isMultiYearMode \<and> \<not> comparing) \<or> selectedYears = [] then None
      else Some (foldl (\<lambda>yearsData y.
                          AList.update y (monthlySummary rt cases y adjustments) yearsData)
                   [] selectedYears))"

definition multiYearQuarterly ::
  "runtime \<Rightarrow> Case list \<Rightarrow> int list \<Rightarrow> bool \<Rightarrow> bool
     \<Rightarrow> (int \<times> QuarterSummary list) list option" where
  "multiYearQuarterly rt cases selectedYears isMultiYearMode comparing =
     (if (\<not> isMultiYearMode \<and> \<not> comparing) \<or> selectedYears = [] then None
      else Some (foldl (\<lambda>yearsData y. AList.update y (quarterlySummary rt cases y) yearsData)
                   [] selectedYears))"

definition multiYearAddonAnalysis ::
  "runtime \<Rightarrow> Case list \<Rightarrow> int list \<Rightarrow> bool \<Rightarrow> (int \<times> AddonAnalysis) list option" where
  "multiYearAddonAnalysis rt cases selectedYears isMultiYearMode =
     (if \<not> isMultiYearMode \<or> selectedYears = [] then None
      else Some (foldl (\<lambda>yearsData y. AList.update y (addonAnalysis rt cases y) yearsData)
                   [] selectedYears))"

text \<open>
  The rows of the table "Year-over-Year Trend": for each available year the totals by
  type of its cases and their total.
\<close>

record YearTrendRow =
  yt_year :: int
  yearTotals :: "(string \<times> rat) list"
  yt_total :: rat

definition addToYear :: "YearTrendRow \<Rightarrow> Case \<Rightarrow> YearTrendRow" where
  "addToYear row c =
     (let row1 =
            (case type c of
               None \<Rightarrow> row
             | Some t \<Rightarrow>
                 if truthy (amount c) \<and> t \<noteq> []
                 then row\<lparr>yearTotals := addTo t (parseAmount (amount c)) (yearTotals row),
                          yt_total := fadd (yt_total row) (parseAmount (amount c))\<rparr>
                 else row)
      in if nonBlank (addOnsBilling c)
         then row1\<lparr>yearTotals := addTo ''Add-ons'' (parseAmount (addOnsBilling c))
                                   (yearTotals row1),
                   yt_total := fadd (yt_total row1) (parseAmount (addOnsBilling c))\<rparr>
         else row1)"

definition yearTrend :: "runtime \<Rightarrow> Case list \<Rightarrow> YearTrendRow list" where
  "yearTrend rt cases =
     map (\<lambda>y. foldl addToYear \<lparr>yt_year = y, yearTotals = [], yt_total = 0\<rparr>
                 (filter (inYear rt y) cases))
       (availableYears_bm rt cases)"

subsection \<open>\<open>TeamManager\<close>\<close>

text \<open>The body of the loop of \<open>allTeams\<close>, on the \<open>Map\<close> \<open>teamRevenue\<close>.\<close>

definition addTeamRevenue ::
  "runtime \<Rightarrow> int \<Rightarrow> (string \<times> rat) list \<Rightarrow> Case \<Rightarrow> (string \<times> rat) list" where
  "addTeamRevenue rt selectedYear teamRevenue c =
     (case team c of
        None \<Rightarrow> teamRevenue
      | Some t \<Rightarrow>
          if t \<noteq> [] \<and> trim t \<noteq> [] \<and> truthy (amount c)
          then
            (case parseDateInput rt (dateReceived c) of
               None \<Rightarrow> teamRevenue
             | Some date \<Rightarrow>
                 if getFullYear date \<noteq> selectedYear then teamRevenue
                 else addTo (trim t) (parseAmount (amount c)) teamRevenue)
          else teamRevenue)"

text \<open>\<open>allTeams\<close>: the teams with revenue in the selected year, highest revenue first.\<close>

definition allTeams :: "runtime \<Rightarrow> Case list \<Rightarrow> int \<Rightarrow> string list" where
  "allTeams rt cases selectedYear =
     map fst (sortBy (\<lambda>a b. snd b - snd a) (foldl (addTeamRevenue rt selectedYear) [] cases))"

text \<open>
  \<open>MonthlySummary\<close> of \<open>TeamManager\<close> and the summary of a quarter there, with the
  prefixes \<open>tm_\<close> and \<open>tq_\<close>.
\<close>

record TeamMonthlySummary =
  tm_month :: int
  tm_year :: int
  teamAmounts :: "(string \<times> rat) list"
  tm_total :: rat

record TeamQuarterSummary =
  tq_quarter :: int
  teamAmounts_q :: "(string \<times> rat) list"
  tq_total :: rat

text \<open>\<open>c.team.trim() || 'Unknown'\<close> for a team that is present and not empty.\<close>

definition teamLabel :: "string \<Rightarrow> string" where
  "teamLabel t = (if trim t = [] then ''Unknown'' else trim t)"

definition addTeamCase ::
  "runtime \<Rightarrow> int \<Rightarrow> ((int \<times> int) \<times> TeamMonthlySummary) list \<Rightarrow> Case
     \<Rightarrow> ((int \<times> int) \<times> TeamMonthlySummary) list" where
  "addTeamCase rt selectedYear sm c =
     (case parseDateInput rt (dateReceived c) of
        None \<Rightarrow> sm
      | Some date \<Rightarrow>
          if getFullYear date \<noteq> selectedYear then sm
          else
            (case team c of
               None \<Rightarrow> sm
             | Some t \<Rightarrow>
                 if \<not> truthy (amount c) \<or> t = [] then sm
                 else AList.map_entry (selectedYear, getMonth date + 1)
                        (\<lambda>summary.
                           summary\<lparr>teamAmounts := addTo (teamLabel t) (parseAmount (amount c))
                                                      (teamAmounts summary),
                                   tm_total := fadd (tm_total summary)
                                                 (parseAmount (amount c))\<rparr>) sm))"

definition teamMonthlySummary :: "runtime \<Rightarrow> Case list \<Rightarrow> int \<Rightarrow> TeamMonthlySummary list" where
  "teamMonthlySummary rt cases selectedYear =
     sortBy (\<lambda>a b. tm_month a - tm_month b)
       (map snd
          (foldl (addTeamCase rt selectedYear)
             (map (\<lambda>m. ((selectedYear, m),
                        \<lparr>tm_month = m, tm_year = selectedYear, teamAmounts = [], tm_total = 0\<rparr>))
                [1..12])
             cases))"

definition addTeamCaseQ ::
  "runtime \<Rightarrow> int \<Rightarrow> ((int \<times> int) \<times> TeamQuarterSummary) list \<Rightarrow> Case
     \<Rightarrow> ((int \<times> int) \<times> TeamQuarterSummary) list" where
  "addTeamCaseQ rt selectedYear qm c =
     (case parseDateInput rt (dateReceived c) of
        None \<Rightarrow> qm
      | Some date \<Rightarrow>
          if getFullYear date \<noteq> selectedYear then qm
          else
            (case team c of
               None \<Rightarrow> qm
             | Some t \<Rightarrow>
                 if \<not> truthy (amount c) \<or> t = [] then qm
                 else AList.map_entry (selectedYear, getMonth date div 3 + 1)
                        (\<lambda>summary.
                           summary\<lparr>teamAmounts_q := addTo (teamLabel t) (parseAmount (amount c))
                                                        (teamAmounts_q summary),
                                   tq_total := fadd (tq_total summary)
                                                 (parseAmount (amount c))\<rparr>) qm))"

definition teamQuarterlySummary :: "runtime \<Rightarrow> Case list \<Rightarrow> int \<Rightarrow> TeamQuarterSummary list" where
  "teamQuarterlySummary rt cases selectedYear =
     sortBy (\<lambda>a b. tq_quarter a - tq_quarter b)
       (map snd
          (foldl (addTeamCaseQ rt selectedYear)
             (map (\<lambda>q. ((selectedYear, q),
                        \<lparr>tq_quarter = q, teamAmounts_q = [], tq_total = 0\<rparr>)) [1..4])
             cases))"

text \<open>\<open>availableYears\<close> of \<open>TeamManager\<close>.\<close>

definition availableYears_tm :: "runtime \<Rightarrow> Case list \<Rightarrow> int list" where
  "availableYears_tm rt cases =
     sortBy (\<lambda>a b. b - a)
       (distinctInOrder
          (List.map_filter (\<lambda>c. map_option getFullYear (parseDateInput rt (dateReceived c)))
             cases))"

text \<open>The number of cases shown on the card of a team: \<open>caseCount\<close>.\<close>

definition teamCaseCount :: "runtime \<Rightarrow> Case list \<Rightarrow> int \<Rightarrow> string \<Rightarrow> nat" where
  "teamCaseCount rt cases selectedYear tm =
     length (filter (\<lambda>c. inYear rt selectedYear c \<and> team c = Some tm \<and> truthy (amount c)) cases)"

text \<open>The rows of the table "Year-over-Year Team Performance".\<close>

record TeamYearRow =
  ty_year :: int
  yearData :: "(string \<times> rat) list"
  ty_total :: rat

definition addToTeamYear :: "TeamYearRow \<Rightarrow> Case \<Rightarrow> TeamYearRow" where
  "addToTeamYear row c =
     (case team c of
        None \<Rightarrow> row
      | Some t \<Rightarrow>
          if truthy (amount c) \<and> t \<noteq> []
          then row\<lparr>yearData := addTo (trim t) (parseAmount (amount c)) (yearData row),
                   ty_total := fadd (ty_total row) (parseAmount (amount c))\<rparr>
          else row)"

definition teamYearTable :: "runtime \<Rightarrow> Case list \<Rightarrow> TeamYearRow list" where
  "teamYearTable rt cases =
     map (\<lambda>y. foldl addToTeamYear \<lparr>ty_year = y, yearData = [], ty_total = 0\<rparr>
                 (filter (inYear rt y) cases))
       (availableYears_tm rt cases)"

subsection \<open>\<open>CaseMatrix\<close>: the years, and the amounts by quarter and by month\<close>

definition yearOptions :: "runtime \<Rightarrow> Case list \<Rightarrow> int list" where
  "yearOptions rt cases =
     sortBy (\<lambda>a b. b - a)
       (distinctInOrder
          (List.map_filter (\<lambda>c. map_option getFullYear (parseDateInput rt (dateReceived c)))
             cases))"

text \<open>
  \<open>QuarterlyAmountRow\<close> and \<open>MonthlyAmountRow\<close>, with the prefix \<open>pa_\<close>: the year is the
  number it prints, \<open>pa_period\<close> is \<open>quarter\<close> or \<open>month\<close>, and the label (\<open>quarterLabel\<close>,
  \<open>monthLabel\<close>), which is printed from the two, is left out.
\<close>

record PeriodAmountRow =
  pa_year :: int
  pa_period :: int
  pa_regionTotals :: "(string \<times> rat) list"
  pa_rowTotal :: rat

record PeriodAmountAcc =
  periodMap :: "((int \<times> int) \<times> PeriodAmountRow) list"
  pa_columnTotals_acc :: "(string \<times> rat) list"
  pa_grandTotal_acc :: rat
  pa_extraRegions :: "string list"

text \<open>
  The body of the loop of \<open>quarterlyAmountMatrix\<close> and of \<open>monthlyAmountMatrix\<close>;
  \<open>period\<close> gives the quarter or the month of a date.
\<close>

definition addPeriodAmount ::
  "runtime \<Rightarrow> (jsdate \<Rightarrow> int) \<Rightarrow> int \<Rightarrow> PeriodAmountAcc \<Rightarrow> Case \<Rightarrow> PeriodAmountAcc" where
  "addPeriodAmount rt period selectedYear acc c =
     (let amt = parseAmount (amount c) in
      if amt = 0 then acc
      else
        (case parseDateInput rt (dateReceived c) of
           None \<Rightarrow> acc
         | Some date \<Rightarrow>
             if getFullYear date \<noteq> selectedYear then acc
             else
               (let key = (getFullYear date, period date);
                    reg = regionOf c
                in \<lparr>periodMap =
                       AList.map_entry key
                         (\<lambda>row. row\<lparr>pa_regionTotals := addTo reg amt (pa_regionTotals row),
                                    pa_rowTotal := fadd (pa_rowTotal row) amt\<rparr>)
                         (ensureKey key
                            \<lparr>pa_year = getFullYear date, pa_period = period date,
                             pa_regionTotals = [], pa_rowTotal = 0\<rparr> (periodMap acc)),
                     pa_columnTotals_acc = addTo reg amt (pa_columnTotals_acc acc),
                     pa_grandTotal_acc = fadd (pa_grandTotal_acc acc) amt,
                     pa_extraRegions =
                       (if reg \<notin> set REGION_ORDER \<and> reg \<notin> set (pa_extraRegions acc)
                        then pa_extraRegions acc @ [reg] else pa_extraRegions acc)\<rparr>)))"

text \<open>The comparator of the rows: by year, then by quarter or month.\<close>

definition comparePeriodRows :: "PeriodAmountRow \<Rightarrow> PeriodAmountRow \<Rightarrow> int" where
  "comparePeriodRows a b =
     (if pa_year a \<noteq> pa_year b then pa_year a - pa_year b else pa_period a - pa_period b)"

record PeriodAmountData =
  pa_rows :: "PeriodAmountRow list"
  pa_columnTotals :: "(string \<times> rat) list"
  pa_grandTotal :: rat
  pa_regions :: "string list"

definition periodAmountMatrix ::
  "runtime \<Rightarrow> (jsdate \<Rightarrow> int) \<Rightarrow> Case list \<Rightarrow> int \<Rightarrow> PeriodAmountData" where
  "periodAmountMatrix rt period cases selectedYear =
     (let acc = foldl (addPeriodAmount rt period selectedYear)
                  \<lparr>periodMap = [], pa_columnTotals_acc = [], pa_grandTotal_acc = 0,
                   pa_extraRegions = []\<rparr> cases
      in \<lparr>pa_rows = sortBy comparePeriodRows (map snd (periodMap acc)),
          pa_columnTotals = pa_columnTotals_acc acc,
          pa_grandTotal = pa_grandTotal_acc acc,
          pa_regions =
            REGION_ORDER
            @ sort (filter (\<lambda>r. r \<notin> set REGION_ORDER) (pa_extraRegions acc))\<rparr>)"

definition quarterlyAmountMatrix :: "runtime \<Rightarrow> Case list \<Rightarrow> int \<Rightarrow> PeriodAmountData" where
  "quarterlyAmountMatrix rt cases selectedYear =
     periodAmountMatrix rt (\<lambda>date. getMonth date div 3 + 1) cases selectedYear"

definition monthlyAmountMatrix :: "runtime \<Rightarrow> Case list \<Rightarrow> int \<Rightarrow> PeriodAmountData" where
  "monthlyAmountMatrix rt cases selectedYear =
     periodAmountMatrix rt (\<lambda>date. getMonth date + 1) cases selectedYear"

section \<open>Properties of the monthly and quarterly summaries\<close>

subsection \<open>The summaries are the cells of their months and quarters\<close>

lemma sortBy_sorted:
  "sorted_wrt (\<lambda>a b. cmp a b \<le> 0) xs \<Longrightarrow> sortBy cmp xs = xs"
proof (induction xs)
  case Nil
  then show ?case by (simp add: sortBy_def)
next
  case (Cons x xs)
  then have "sortBy cmp xs = xs" by simp
  then have "sortBy cmp (x # xs) = insertBy cmp x xs"
    by (simp add: sortBy_def)
  also have "\<dots> = x # xs"
    using Cons.prems by (cases xs) simp_all
  finally show ?case .
qed

lemma sorted_wrt_upto_cells:
  "(\<And>m. key (f m) = m) \<Longrightarrow> sorted_wrt (\<lambda>a b. key a - key b \<le> (0::int)) (map f [i..j])"
proof -
  assume k: "\<And>m. key (f m) = m"
  have "sorted_wrt (\<lambda>m n. m - n \<le> (0::int)) [i..j]"
    using sorted_wrt_mono_rel [of "[i..j]" "(<)" "\<lambda>m n. m - n \<le> (0::int)"]
    by (simp add: sorted_wrt_upto)
  then show ?thesis
    by (simp add: sorted_wrt_map k)
qed

lemma map_entry_grid:
  "distinct ms \<Longrightarrow>
   AList.map_entry (y, k) f (map (\<lambda>m. ((y, m), g m)) ms) =
   map (\<lambda>m. ((y, m), if m = k then f (g m) else g m)) ms"
proof (induction ms)
  case Nil
  then show ?case by simp
next
  case (Cons a ms)
  then have "k \<notin> set ms \<Longrightarrow>
      map (\<lambda>m. ((y, m), if m = k then f (g m) else g m)) ms = map (\<lambda>m. ((y, m), g m)) ms"
    by (intro map_cong) auto
  with Cons show ?case by auto
qed

lemma map_of_grid:
  "map_of (map (\<lambda>m. ((y, m), g m)) ms) (y', k) =
   (if y' = y \<and> k \<in> set ms then Some (g k) else None)"
  by (induction ms) auto

lemma addCase_grid:
  assumes "distinct ms"
  shows "addCase rt y (map (\<lambda>m. ((y, m), g m)) ms) c =
         map (\<lambda>m. ((y, m), caseCell rt y m (g m) c)) ms"
  using assms
  by (auto simp: addCase_def caseCell_def inBucket_def map_entry_grid split: option.splits)

lemma applyAdjustment_grid:
  assumes "distinct ms"
  shows "applyAdjustment y (map (\<lambda>m. ((y, m), g m)) ms) a =
         map (\<lambda>m. ((y, m), adjCell y m (g m) a)) ms"
  using assms
  by (auto simp: applyAdjustment_def adjCell_def map_entry_grid map_of_grid split: option.splits)

lemma foldl_addCase_grid:
  "distinct ms \<Longrightarrow>
   foldl (addCase rt y) (map (\<lambda>m. ((y, m), g m)) ms) cs =
   map (\<lambda>m. ((y, m), foldl (caseCell rt y m) (g m) cs)) ms"
  by (induction cs arbitrary: g) (simp_all add: addCase_grid)

lemma foldl_applyAdjustment_grid:
  "distinct ms \<Longrightarrow>
   foldl (applyAdjustment y) (map (\<lambda>m. ((y, m), g m)) ms) as =
   map (\<lambda>m. ((y, m), foldl (adjCell y m) (g m) as)) ms"
  by (induction as arbitrary: g) (simp_all add: applyAdjustment_grid)

lemma month_caseCell [simp]: "month (caseCell rt y m s c) = month s"
  by (simp add: caseCell_def addAddOns_def addTypeAmount_def)

lemma month_adjCell [simp]: "month (adjCell y m s a) = month s"
  by (simp add: adjCell_def)

lemma year_caseCell [simp]: "year (caseCell rt y m s c) = year s"
  by (simp add: caseCell_def addAddOns_def addTypeAmount_def)

lemma year_adjCell [simp]: "year (adjCell y m s a) = year s"
  by (simp add: adjCell_def)

lemma month_foldl_caseCell [simp]: "month (foldl (caseCell rt y m) s cs) = month s"
  by (induction cs arbitrary: s) simp_all

lemma month_foldl_adjCell [simp]: "month (foldl (adjCell y m) s as) = month s"
  by (induction as arbitrary: s) simp_all

lemma year_foldl_caseCell [simp]: "year (foldl (caseCell rt y m) s cs) = year s"
  by (induction cs arbitrary: s) simp_all

lemma year_foldl_adjCell [simp]: "year (foldl (adjCell y m) s as) = year s"
  by (induction as arbitrary: s) simp_all

lemma month_monthCell [simp]: "month (monthCell rt cases y adjs m) = m"
  by (simp add: monthCell_def)

lemma year_monthCell [simp]: "year (monthCell rt cases y adjs m) = y"
  by (simp add: monthCell_def)

lemma monthlySummary_cells:
  "monthlySummary rt cases y adjs = map (monthCell rt cases y adjs) [1..12]"
proof -
  have d: "distinct [1..12::int]" by simp
  have "foldl (applyAdjustment y) (foldl (addCase rt y) (initSummaryMap y) cases) adjs
        = map (\<lambda>m. ((y, m), monthCell rt cases y adjs m)) [1..12]"
    unfolding initSummaryMap_def monthCell_def
    by (simp only: foldl_addCase_grid [OF d] foldl_applyAdjustment_grid [OF d])
  then have "monthlySummary rt cases y adjs =
      sortBy (\<lambda>a b. month a - month b) (map (monthCell rt cases y adjs) [1..12])"
    by (simp add: monthlySummary_def comp_def)
  moreover have "sorted_wrt (\<lambda>a b. month a - month b \<le> 0)
      (map (monthCell rt cases y adjs) [1..12])"
    by (rule sorted_wrt_upto_cells) simp
  ultimately show ?thesis
    by (simp only: sortBy_sorted)
qed

lemma addCaseQ_grid:
  assumes "distinct qs"
  shows "addCaseQ rt y (map (\<lambda>q. ((y, q), g q)) qs) c =
         map (\<lambda>q. ((y, q), caseCellQ rt y q (g q) c)) qs"
  using assms
  by (auto simp: addCaseQ_def caseCellQ_def inQuarter_def map_entry_grid split: option.splits)

lemma foldl_addCaseQ_grid:
  "distinct qs \<Longrightarrow>
   foldl (addCaseQ rt y) (map (\<lambda>q. ((y, q), g q)) qs) cs =
   map (\<lambda>q. ((y, q), foldl (caseCellQ rt y q) (g q) cs)) qs"
  by (induction cs arbitrary: g) (simp_all add: addCaseQ_grid)

lemma quarter_caseCellQ [simp]: "quarter (caseCellQ rt y q s c) = quarter s"
  by (simp add: caseCellQ_def addAddOnsQ_def addTypeAmountQ_def)

lemma quarter_foldl_caseCellQ [simp]: "quarter (foldl (caseCellQ rt y q) s cs) = quarter s"
  by (induction cs arbitrary: s) simp_all

lemma quarter_quarterCell [simp]: "quarter (quarterCell rt cases y q) = q"
  by (simp add: quarterCell_def)

lemma quarterlySummary_cells:
  "quarterlySummary rt cases y = map (quarterCell rt cases y) [1..4]"
proof -
  have d: "distinct [1..4::int]" by simp
  have "foldl (addCaseQ rt y) (initQuarterMap y) cases
        = map (\<lambda>q. ((y, q), quarterCell rt cases y q)) [1..4]"
    unfolding initQuarterMap_def quarterCell_def
    by (simp only: foldl_addCaseQ_grid [OF d])
  then have "quarterlySummary rt cases y =
      sortBy (\<lambda>a b. quarter a - quarter b) (map (quarterCell rt cases y) [1..4])"
    by (simp add: quarterlySummary_def comp_def)
  moreover have "sorted_wrt (\<lambda>a b. quarter a - quarter b \<le> 0)
      (map (quarterCell rt cases y) [1..4])"
    by (rule sorted_wrt_upto_cells) simp
  ultimately show ?thesis
    by (simp only: sortBy_sorted)
qed

text \<open>
  The summary that a case updates exists: \<open>getMonth\<close> is one of 0 to 11, so the
  non-null assertions on \<open>summaryMap.get(key)\<close> and \<open>quarterMap.get(key)\<close> hold.
\<close>

lemma month_index_range: "0 \<le> month_index mn \<and> month_index mn \<le> 11"
  by (cases mn) simp_all

lemma summary_present:
  "map_of (foldl (addCase rt y) (initSummaryMap y) cs) (y, getMonth d + 1) \<noteq> None"
proof -
  have d: "distinct [1..12::int]" by simp
  have "getMonth d + 1 \<in> set [1..12]"
    using month_index_range [of "monthName d"] by (simp add: getMonth_def)
  then show ?thesis
    unfolding initSummaryMap_def
    by (simp only: foldl_addCase_grid [OF d] map_of_grid) simp
qed

lemma quarter_present:
  "map_of (foldl (addCaseQ rt y) (initQuarterMap y) cs) (y, getMonth d div 3 + 1) \<noteq> None"
proof -
  have d: "distinct [1..4::int]" by simp
  have "getMonth d div 3 + 1 \<in> set [1..4]"
    by (cases "monthName d") (simp_all add: getMonth_def)
  then show ?thesis
    unfolding initQuarterMap_def
    by (simp only: foldl_addCaseQ_grid [OF d] map_of_grid) simp
qed

subsection \<open>Lookups in a type table\<close>



subsection \<open>Claims about the monthly summary\<close>

lemma parseAmount_50000: "parseAmount (Some ''50000'') = 50000"
  by code_simp

lemma fadd_0_50000: "fadd 0 50000 = 50000"
  by code_simp

lemma march_cell:
  assumes "type c = Some ''Full''" and "amount c = Some ''50000''"
    and "\<not> nonBlank (addOnsBilling c)"
  shows "addAddOns c (addTypeAmount c \<lparr>month = 3, year = 2024, typeAmounts = [], total_m = 0\<rparr>)
         = \<lparr>month = 3, year = 2024, typeAmounts = [(''Full'', 50000)], total_m = 50000\<rparr>"
  using assms
  by (simp add: addAddOns_def addTypeAmount_def truthy_def orElse_def parseAmount_50000
        fadd_0_50000)

text \<open>
  C1.  One case received in March 2024 (its date-received value parses to a date whose
  local year is 2024 and whose month is March), of type "Full", with amount "50000" and
  no add-on billing, aggregated for the year 2024 with no adjustments: the March summary
  has the single type amount "Full" = 50000 and the total 50000, each of the other eleven
  months has no type amount and the total 0, and the grand total is 50000.
\<close>

theorem monthlySummary_single_case_march:
  assumes "parseDateInput rt (dateReceived c) = Some d"
    and "getFullYear d = 2024" and "monthName d = Mar"
    and "type c = Some ''Full''" and "amount c = Some ''50000''"
    and "\<not> nonBlank (addOnsBilling c)"
  shows "monthlySummary rt [c] 2024 [] =
           map (\<lambda>m. if m = 3
                     then \<lparr>month = 3, year = 2024, typeAmounts = [(''Full'', 50000)],
                           total_m = 50000\<rparr>
                     else \<lparr>month = m, year = 2024, typeAmounts = [], total_m = 0\<rparr>) [1..12]
         \<and> grandTotal (typeTotals (monthlySummary rt [c] 2024 [])) = 50000"
proof -
  have bucket: "inBucket rt 2024 m c \<longleftrightarrow> m = 3" for m
    using assms(1-3) by (auto simp: inBucket_def getMonth_def)
  have cell: "monthCell rt [c] 2024 [] m =
      (if m = 3
       then \<lparr>month = 3, year = 2024, typeAmounts = [(''Full'', 50000)], total_m = 50000\<rparr>
       else \<lparr>month = m, year = 2024, typeAmounts = [], total_m = 0\<rparr>)" for m
    using march_cell [OF assms(4-6)] by (simp add: monthCell_def caseCell_def bucket)
  have summary: "monthlySummary rt [c] 2024 [] =
      map (\<lambda>m. if m = 3
                then \<lparr>month = 3, year = 2024, typeAmounts = [(''Full'', 50000)],
                      total_m = 50000\<rparr>
                else \<lparr>month = m, year = 2024, typeAmounts = [], total_m = 0\<rparr>) [1..12]"
    unfolding monthlySummary_cells by (rule map_cong) (simp_all add: cell)
  have months: "[1..12::int] = [1, 2, 3, 4, 5, 6, 7, 8, 9, 10, 11, 12]"
    by (simp add: upto_rec1)
  have "grandTotal (typeTotals (monthlySummary rt [c] 2024 [])) = 50000"
    unfolding summary months by (simp add: typeTotals_def addEntry_def fadd_0_50000)
  with summary show ?thesis
    by simp
qed

text \<open>The case of the scenario, its date given as the ISO string, on the UTC host.\<close>

theorem monthlySummary_single_case_march_witness:
  "monthlySummary utcHost
     [blankCase\<lparr>dateReceived := Some (Str ''2024-03-15''), type := Some ''Full'',
                amount := Some ''50000''\<rparr>] 2024 [] =
     [\<lparr>month = 1, year = 2024, typeAmounts = [], total_m = 0\<rparr>,
      \<lparr>month = 2, year = 2024, typeAmounts = [], total_m = 0\<rparr>,
      \<lparr>month = 3, year = 2024, typeAmounts = [(''Full'', 50000)], total_m = 50000\<rparr>,
      \<lparr>month = 4, year = 2024, typeAmounts = [], total_m = 0\<rparr>,
      \<lparr>month = 5, year = 2024, typeAmounts = [], total_m = 0\<rparr>,
      \<lparr>month = 6, year = 2024, typeAmounts = [], total_m = 0\<rparr>,
      \<lparr>month = 7, year = 2024, typeAmounts = [], total_m = 0\<rparr>,
      \<lparr>month = 8, year = 2024, typeAmounts = [], total_m = 0\<rparr>,
      \<lparr>month = 9, year = 2024, typeAmounts = [], total_m = 0\<rparr>,
      \<lparr>month = 10, year = 2024, typeAmounts = [], total_m = 0\<rparr>,
      \<lparr>month = 11, year = 2024, typeAmounts = [], total_m = 0\<rparr>,
      \<lparr>month = 12, year = 2024, typeAmounts = [], total_m = 0\<rparr>]
   \<and> grandTotal (typeTotals (monthlySummary utcHost
         [blankCase\<lparr>dateReceived := Some (Str ''2024-03-15''), type := Some ''Full'',
                    amount := Some ''50000''\<rparr>] 2024 [])) = 50000"
proof -
  let ?c = "blankCase\<lparr>dateReceived := Some (Str ''2024-03-15''), type := Some ''Full'',
                       amount := Some ''50000''\<rparr>"
  let ?d = "\<lparr>getTime = 1710460800000, getFullYear = 2024, monthName = Mar\<rparr>"
  have "parseDateInput utcHost (Some (Str ''2024-03-15'')) = Some ?d"
    by code_simp
  then have p: "parseDateInput utcHost (dateReceived ?c) = Some ?d"
    by simp
  have t: "type ?c = Some ''Full''" and a: "amount ?c = Some ''50000''"
    by simp_all
  have n: "\<not> nonBlank (addOnsBilling ?c)"
    by (simp add: blankCase_def nonBlank_def)
  have y: "getFullYear ?d = 2024" and m: "monthName ?d = Mar"
    by simp_all
  have months: "[1..12::int] = [1, 2, 3, 4, 5, 6, 7, 8, 9, 10, 11, 12]"
    by (simp add: upto_rec1)
  note r = monthlySummary_single_case_march [OF p y m t a n]
  from r have "monthlySummary utcHost [?c] 2024 [] =
      map (\<lambda>m. if m = 3
                then \<lparr>month = 3, year = 2024, typeAmounts = [(''Full'', 50000)],
                      total_m = 50000\<rparr>
                else \<lparr>month = m, year = 2024, typeAmounts = [], total_m = 0\<rparr>)
        [1, 2, 3, 4, 5, 6, 7, 8, 9, 10, 11, 12]"
    unfolding months by (rule conjunct1)
  moreover from r have "grandTotal (typeTotals (monthlySummary utcHost [?c] 2024 [])) = 50000"
    by (rule conjunct2)
  ultimately show ?thesis
    by simp
qed

lemma foldl_caseCell_untouched:
  "\<forall>c\<in>set cs. \<not> inBucket rt y m c \<Longrightarrow> foldl (caseCell rt y m) s cs = s"
  by (induction cs arbitrary: s) (simp_all add: caseCell_def)

lemma foldl_adjCell_untouched:
  "\<forall>a\<in>set as. adj_year a \<noteq> y \<or> adj_month a \<noteq> m \<Longrightarrow> foldl (adjCell y m) s as = s"
  by (induction as arbitrary: s) (auto simp: adjCell_def)

lemma foldl_caseCellQ_untouched:
  "\<forall>c\<in>set cs. \<not> inQuarter rt y q c \<Longrightarrow> foldl (caseCellQ rt y q) s cs = s"
  by (induction cs arbitrary: s) (simp_all add: caseCellQ_def)

lemma nth_months: "1 \<le> m \<Longrightarrow> m \<le> k \<Longrightarrow> map f [1..k] ! nat (m - 1) = f m"
  by simp

text \<open>
  C2.  Whatever the cases, the selected year and the adjustments, the monthly summary
  has one entry for each month 1 to 12, in this order, each of the selected year, and
  the quarterly summary one entry for each quarter 1 to 4; the entry of a month in which
  no case was received and that no adjustment names has no type amount and the total
  0, and so has the entry of a quarter in which no case was received.
\<close>

theorem dense_grid:
  "map month (monthlySummary rt cases y adjs) = [1..12]
   \<and> map year (monthlySummary rt cases y adjs) = replicate 12 y
   \<and> (\<forall>m\<in>{1..12}.
         (\<forall>c\<in>set cases. \<not> inBucket rt y m c)
         \<and> (\<forall>a\<in>set adjs. adj_year a \<noteq> y \<or> adj_month a \<noteq> m)
         \<longrightarrow> monthlySummary rt cases y adjs ! nat (m - 1)
               = \<lparr>month = m, year = y, typeAmounts = [], total_m = 0\<rparr>)
   \<and> map quarter (quarterlySummary rt cases y) = [1..4]
   \<and> (\<forall>q\<in>{1..4}.
         (\<forall>c\<in>set cases. \<not> inQuarter rt y q c)
         \<longrightarrow> quarterlySummary rt cases y ! nat (q - 1)
               = \<lparr>quarter = q, typeAmounts_q = [], total_q = 0\<rparr>)"
proof (intro conjI ballI impI)
  show "map month (monthlySummary rt cases y adjs) = [1..12]"
    by (simp add: monthlySummary_cells comp_def)
  show "map year (monthlySummary rt cases y adjs) = replicate 12 y"
    by (simp add: monthlySummary_cells comp_def map_replicate_const)
  show "map quarter (quarterlySummary rt cases y) = [1..4]"
    by (simp add: quarterlySummary_cells comp_def)
next
  fix m :: int
  assume m: "m \<in> {1..12}"
    and none: "(\<forall>c\<in>set cases. \<not> inBucket rt y m c)
               \<and> (\<forall>a\<in>set adjs. adj_year a \<noteq> y \<or> adj_month a \<noteq> m)"
  from none have "monthCell rt cases y adjs m =
      \<lparr>month = m, year = y, typeAmounts = [], total_m = 0\<rparr>"
    by (simp add: monthCell_def foldl_caseCell_untouched foldl_adjCell_untouched)
  with m show "monthlySummary rt cases y adjs ! nat (m - 1) =
      \<lparr>month = m, year = y, typeAmounts = [], total_m = 0\<rparr>"
    by (simp add: monthlySummary_cells nth_months)
next
  fix q :: int
  assume q: "q \<in> {1..4}" and none: "\<forall>c\<in>set cases. \<not> inQuarter rt y q c"
  from none have "quarterCell rt cases y q = \<lparr>quarter = q, typeAmounts_q = [], total_q = 0\<rparr>"
    by (simp add: quarterCell_def foldl_caseCellQ_untouched)
  with q show "quarterlySummary rt cases y ! nat (q - 1) =
      \<lparr>quarter = q, typeAmounts_q = [], total_q = 0\<rparr>"
    by (simp add: quarterlySummary_cells nth_months)
qed

text \<open>
  One case received in March 2024 and one adjustment for March 2024: May and the
  second quarter are present and empty.
\<close>

theorem dense_grid_witness:
  "map month (monthlySummary utcHost
      [blankCase\<lparr>dateReceived := Some (Str ''2024-03-15''), type := Some ''Full'',
                 amount := Some ''50000''\<rparr>] 2024
      [\<lparr>adj_id = ''a1'', adj_month = 3, adj_year = 2024, adj_type = ''Full'',
        adj_amount = - 500, reason = ''correction''\<rparr>]) = [1..12]
   \<and> monthlySummary utcHost
      [blankCase\<lparr>dateReceived := Some (Str ''2024-03-15''), type := Some ''Full'',
                 amount := Some ''50000''\<rparr>] 2024
      [\<lparr>adj_id = ''a1'', adj_month = 3, adj_year = 2024, adj_type = ''Full'',
        adj_amount = - 500, reason = ''correction''\<rparr>] ! 4
     = \<lparr>month = 5, year = 2024, typeAmounts = [], total_m = 0\<rparr>
   \<and> map quarter (quarterlySummary utcHost
      [blankCase\<lparr>dateReceived := Some (Str ''2024-03-15''), type := Some ''Full'',
                 amount := Some ''50000''\<rparr>] 2024) = [1..4]
   \<and> quarterlySummary utcHost
      [blankCase\<lparr>dateReceived := Some (Str ''2024-03-15''), type := Some ''Full'',
                 amount := Some ''50000''\<rparr>] 2024 ! 1
     = \<lparr>quarter = 2, typeAmounts_q = [], total_q = 0\<rparr>"
proof -
  let ?c = "blankCase\<lparr>dateReceived := Some (Str ''2024-03-15''), type := Some ''Full'',
                       amount := Some ''50000''\<rparr>"
  let ?a = "\<lparr>adj_id = ''a1'', adj_month = 3, adj_year = 2024, adj_type = ''Full'',
             adj_amount = - 500, reason = ''correction''\<rparr>"
  have p: "parseDateInput utcHost (Some (Str ''2024-03-15'')) =
      Some \<lparr>getTime = 1710460800000, getFullYear = 2024, monthName = Mar\<rparr>"
    by code_simp
  have b: "\<forall>c\<in>set [?c]. \<not> inBucket utcHost 2024 5 c"
    by (simp add: inBucket_def p getMonth_def)
  have q: "\<forall>c\<in>set [?c]. \<not> inQuarter utcHost 2024 2 c"
    by (simp add: inQuarter_def p getMonth_def)
  have a: "\<forall>a\<in>set [?a]. adj_year a \<noteq> 2024 \<or> adj_month a \<noteq> 5"
    by simp
  have m5: "(5::int) \<in> {1..12}" and q2: "(2::int) \<in> {1..4}"
    by simp_all
  note g = dense_grid [of utcHost "[?c]" 2024 "[?a]"]
  note g1 = g [THEN conjunct1]
  note g3 = g [THEN conjunct2, THEN conjunct2, THEN conjunct1, THEN bspec, OF m5, THEN mp,
               OF conjI [OF b a]]
  note g4 = g [THEN conjunct2, THEN conjunct2, THEN conjunct2, THEN conjunct1]
  note g5 = g [THEN conjunct2, THEN conjunct2, THEN conjunct2, THEN conjunct2, THEN bspec,
               OF q2, THEN mp, OF q]
  have "nat (5 - 1) = 4" and "nat (2 - 1) = 1"
    by simp_all
  with g1 g3 g4 g5 show ?thesis
    by (simp only:) 
qed

text \<open>
  C3.  An adjustment whose year and month name no bucket of the grid - its year is not
  the selected year, or its month is not one of 1 to 12 - changes nothing, wherever it
  stands in the list of adjustments: the monthly summary (every amount by type and every
  month total) and the totals by type with the grand total are those obtained without
  it.  The functions are total, so no error is raised.
\<close>

theorem adjustment_outside_grid_skipped:
  assumes "adj_year a \<noteq> y \<or> adj_month a \<notin> {1..12}"
  shows "monthlySummary rt cases y (as @ a # bs) = monthlySummary rt cases y (as @ bs)
         \<and> typeTotals (monthlySummary rt cases y (as @ a # bs))
             = typeTotals (monthlySummary rt cases y (as @ bs))"
proof -
  have skip: "adjCell y m s a = s" if "m \<in> set [1..12]" for m s
    using assms that by (auto simp: adjCell_def)
  have "monthCell rt cases y (as @ a # bs) m = monthCell rt cases y (as @ bs) m"
    if "m \<in> set [1..12]" for m
    using skip [OF that] by (simp add: monthCell_def)
  then have "monthlySummary rt cases y (as @ a # bs) = monthlySummary rt cases y (as @ bs)"
    unfolding monthlySummary_cells by (intro map_cong) simp_all
  then show ?thesis by simp
qed

text \<open>
  The adjustment of the scenario dated 2023 instead, on the March 2024 case aggregated
  for 2024.
\<close>

theorem adjustment_outside_grid_skipped_witness:
  "monthlySummary utcHost
      [blankCase\<lparr>dateReceived := Some (Str ''2024-03-15''), type := Some ''Full'',
                 amount := Some ''50000''\<rparr>] 2024
      [\<lparr>adj_id = ''a1'', adj_month = 3, adj_year = 2023, adj_type = ''Full'',
        adj_amount = - 500, reason = ''correction''\<rparr>]
   = monthlySummary utcHost
      [blankCase\<lparr>dateReceived := Some (Str ''2024-03-15''), type := Some ''Full'',
                 amount := Some ''50000''\<rparr>] 2024 []"
proof -
  let ?a = "\<lparr>adj_id = ''a1'', adj_month = 3, adj_year = 2023, adj_type = ''Full'',
             adj_amount = - 500, reason = ''correction''\<rparr>"
  have h: "adj_year ?a \<noteq> 2024 \<or> adj_month ?a \<notin> {1..12}"
    by simp
  show ?thesis
    using adjustment_outside_grid_skipped [OF h, of utcHost _ "[]" "[]"] by simp
qed







section \<open>Properties of the classifier and of the add-on analysis\<close>

lemma typeOnly_foldl:
  "typeOnly (foldl (categorize rt y) acc cs) =
   typeOnly acc @ filter (\<lambda>c. inYear rt y c \<and> hasType c \<and> \<not> hasAddOns c) cs"
  by (induction cs arbitrary: acc) (auto simp: categorize_def)

lemma bundled_foldl:
  "bundled (foldl (categorize rt y) acc cs) =
   bundled acc @ filter (\<lambda>c. inYear rt y c \<and> hasType c \<and> hasAddOns c \<and> \<not> isAddOnOnly c) cs"
  by (induction cs arbitrary: acc) (auto simp: categorize_def)

lemma addonsOnly_foldl:
  "addonsOnly (foldl (categorize rt y) acc cs) =
   addonsOnly acc @ filter (\<lambda>c. inYear rt y c \<and> isAddOnOnly c \<and> hasAddOns c) cs"
  by (induction cs arbitrary: acc) (auto simp: categorize_def)

lemma typeOnly_categorizedCases:
  "typeOnly (categorizedCases rt cases y) =
   filter (\<lambda>c. inYear rt y c \<and> hasType c \<and> \<not> hasAddOns c) cases"
  by (simp add: categorizedCases_def typeOnly_foldl)

lemma bundled_categorizedCases:
  "bundled (categorizedCases rt cases y) =
   filter (\<lambda>c. inYear rt y c \<and> hasType c \<and> hasAddOns c \<and> \<not> isAddOnOnly c) cases"
  by (simp add: categorizedCases_def bundled_foldl)

lemma addonsOnly_categorizedCases:
  "addonsOnly (categorizedCases rt cases y) =
   filter (\<lambda>c. inYear rt y c \<and> isAddOnOnly c \<and> hasAddOns c) cases"
  by (simp add: categorizedCases_def addonsOnly_foldl)

lemma parse_march_15:
  "parseDateInput utcHost (Some (Str ''2024-03-15'')) =
   Some \<lparr>getTime = 1710460800000, getFullYear = 2024, monthName = Mar\<rparr>"
  by code_simp

text \<open>
  C5, as stated, fails: a case of the reporting year with the add-on billing amount
  "200", no billing type and no add-ons-only flag is in none of the three lists.
\<close>

theorem classifier_exhaustive_counterexample:
  "inYear utcHost 2024 (blankCase\<lparr>dateReceived := Some (Str ''2024-03-15''),
                                  addOnsBilling := Some ''200''\<rparr>)
   \<and> hasAddOns (blankCase\<lparr>dateReceived := Some (Str ''2024-03-15''),
                          addOnsBilling := Some ''200''\<rparr>)
   \<and> categorizedCases utcHost
        [blankCase\<lparr>dateReceived := Some (Str ''2024-03-15''), addOnsBilling := Some ''200''\<rparr>]
        2024
      = \<lparr>typeOnly = [], bundled = [], addonsOnly = []\<rparr>"
proof -
  let ?c = "blankCase\<lparr>dateReceived := Some (Str ''2024-03-15''), addOnsBilling := Some ''200''\<rparr>"
  have y: "inYear utcHost 2024 ?c"
    by (simp add: inYear_def parse_march_15)
  have a: "hasAddOns ?c"
    by (simp add: hasAddOns_def nonBlank_def trim_def isSpace_def)
  have t: "\<not> hasType ?c" and o: "\<not> isAddOnOnly ?c"
    by (simp_all add: hasType_def isAddOnOnly_def blankCase_def)
  from y a t o show ?thesis
    by (simp add: categorizedCases_def categorize_def)
qed

text \<open>
  C5, amended.  Every case stands in at most one of the three lists.  A case of the
  input in the reporting year stands in exactly one when it has a billing type, or has
  the add-ons-only flag "yes" together with a non-blank add-on billing amount; any other
  case stands in none - so a case with neither a billing type nor an add-on billing
  amount, and also one with an add-on billing amount but neither a billing type nor the
  flag.
\<close>

theorem classifier_exclusive:
  "categoryCount (categorizedCases rt cases y) c =
     (if c \<in> set cases \<and> inYear rt y c \<and> (hasType c \<or> isAddOnOnly c \<and> hasAddOns c)
      then 1 else 0)"
  by (auto simp: categoryCount_def typeOnly_categorizedCases bundled_categorizedCases
        addonsOnly_categorizedCases)

text \<open>A bundled case of March 2024 stands in one list, a case with neither field in none.\<close>

theorem classifier_exclusive_witness:
  "categoryCount
     (categorizedCases utcHost
        [blankCase\<lparr>dateReceived := Some (Str ''2024-03-15''), type := Some ''Full'',
                   addOnsBilling := Some ''200''\<rparr>,
         blankCase\<lparr>dateReceived := Some (Str ''2024-03-15'')\<rparr>] 2024)
     (blankCase\<lparr>dateReceived := Some (Str ''2024-03-15''), type := Some ''Full'',
                addOnsBilling := Some ''200''\<rparr>) = 1
   \<and> categoryCount
     (categorizedCases utcHost
        [blankCase\<lparr>dateReceived := Some (Str ''2024-03-15''), type := Some ''Full'',
                   addOnsBilling := Some ''200''\<rparr>,
         blankCase\<lparr>dateReceived := Some (Str ''2024-03-15'')\<rparr>] 2024)
     (blankCase\<lparr>dateReceived := Some (Str ''2024-03-15'')\<rparr>) = 0"
proof -
  let ?b = "blankCase\<lparr>dateReceived := Some (Str ''2024-03-15''), type := Some ''Full'',
                       addOnsBilling := Some ''200''\<rparr>"
  let ?n = "blankCase\<lparr>dateReceived := Some (Str ''2024-03-15'')\<rparr>"
  have "inYear utcHost 2024 ?b" and "hasType ?b"
    by (simp_all add: inYear_def parse_march_15 hasType_def)
  moreover have "\<not> hasType ?n" and "\<not> hasAddOns ?n"
    by (simp_all add: hasType_def hasAddOns_def nonBlank_def blankCase_def)
  ultimately show ?thesis
    using classifier_exclusive [of utcHost "[?b, ?n]" 2024 ?b]
      classifier_exclusive [of utcHost "[?b, ?n]" 2024 ?n]
    by simp
qed




subsection \<open>The revenue of the add-on components\<close>








section \<open>The order of the regions in the office matrix\<close>

text \<open>
  C8.  The office matrix lists the regions outside \<open>REGION_ORDER\<close> in the order in which
  the cases first mention them, not in lexical order: two cases of 2024, the first in
  the region "Zulu" and the second in "Alpha", give the rows "Zulu", "Alpha" in each of
  the three views.
\<close>

theorem matrix_extra_regions_unsorted:
  "map rr_region (md_regions (matrix utcHost
      [blankCase\<lparr>dateReceived := Some (Str ''2024-03-15''), region := Some ''Zulu'',
                 office := Some ''Z1'', amount := Some ''10''\<rparr>,
       blankCase\<lparr>dateReceived := Some (Str ''2024-03-15''), region := Some ''Alpha'',
                 office := Some ''A1'', amount := Some ''10''\<rparr>] 2024 Quarterly))
     = [''Zulu'', ''Alpha'']
   \<and> map rr_region (md_regions (matrix utcHost
      [blankCase\<lparr>dateReceived := Some (Str ''2024-03-15''), region := Some ''Zulu'',
                 office := Some ''Z1'', amount := Some ''10''\<rparr>,
       blankCase\<lparr>dateReceived := Some (Str ''2024-03-15''), region := Some ''Alpha'',
                 office := Some ''A1'', amount := Some ''10''\<rparr>] 2024 Monthly))
     = [''Zulu'', ''Alpha'']
   \<and> map rr_region (md_regions (matrix utcHost
      [blankCase\<lparr>dateReceived := Some (Str ''2024-03-15''), region := Some ''Zulu'',
                 office := Some ''Z1'', amount := Some ''10''\<rparr>,
       blankCase\<lparr>dateReceived := Some (Str ''2024-03-15''), region := Some ''Alpha'',
                 office := Some ''A1'', amount := Some ''10''\<rparr>] 2024 Yearly))
     = [''Zulu'', ''Alpha'']"
  by code_simp

text \<open>
  The matrix of amounts, on the same two cases, sorts the regions outside
  \<open>REGION_ORDER\<close>.
\<close>

lemma amountMatrix_extra_regions_sorted:
  "am_regions (amountMatrix utcHost
      [blankCase\<lparr>dateReceived := Some (Str ''2024-03-15''), region := Some ''Zulu'',
                 office := Some ''Z1'', amount := Some ''10''\<rparr>,
       blankCase\<lparr>dateReceived := Some (Str ''2024-03-15''), region := Some ''Alpha'',
                 office := Some ''A1'', amount := Some ''10''\<rparr>])
     = [''Americas'', ''APAC'', ''EMEA'', ''Alpha'', ''Zulu'']"
  by code_simp

text \<open>The regions of the office matrix are those of \<open>orderedRegions\<close>, for every input.\<close>

lemma matrix_regions:
  "map rr_region (md_regions (matrix rt cases y mode)) =
   orderedRegions (regionMap (foldl (countCase rt mode y
       (if mode = Yearly then availableYears rt cases else []))
     \<lparr>regionMap = [], columnTotals_acc = replicate (columns mode) 0,
      grandTotal_acc = 0, officesSet = []\<rparr> cases))"
  by (simp add: matrix_def Let_def comp_def regionRow_def)

section \<open>Terminal statuses and overdue days\<close>

text \<open>
  C9.  When the status of a case normalises to a value of the closed set (compared
  without regard to letter case), the case is not active and its overdue days are 0,
  whatever the promised date and the current day.  The status "cancelled " normalises
  to "Cancelled", which is in the closed set, and so is "Delivered".
\<close>

theorem terminal_status_not_overdue:
  "(normalizeStatus st = Some n \<and> toLowerCase n \<in> closedStatusesSet
      \<longrightarrow> \<not> isActiveStatus st \<and> getOverdueBy rt today promised st = 0)
   \<and> normalizeStatus (Some ''cancelled '') = Some ''Cancelled''
   \<and> getOverdueBy rt today promised (Some ''cancelled '') = 0
   \<and> getOverdueBy rt today promised (Some ''Delivered'') = 0"
proof -
  have general: "\<not> isActiveStatus s \<and> getOverdueBy rt today promised s = 0"
    if "normalizeStatus s = Some m" and "toLowerCase m \<in> closedStatusesSet" for s m
    using that by (simp add: isActiveStatus_def getOverdueBy_def split: option.splits)
  have c: "normalizeStatus (Some ''cancelled '') = Some ''Cancelled''"
    by code_simp
  have d: "normalizeStatus (Some ''Delivered'') = Some ''Delivered''"
    by code_simp
  have cl: "toLowerCase ''Cancelled'' \<in> closedStatusesSet"
    and dl: "toLowerCase ''Delivered'' \<in> closedStatusesSet"
    by code_simp+
  from general [of st n] general [OF c cl] general [OF d dl] c show ?thesis
    by blast
qed

text \<open>
  On 15 March 2024 a case promised for 1 March 2024: 14 days overdue while "In
  Progress", none once its status is "cancelled ".
\<close>

theorem terminal_status_not_overdue_witness:
  "getOverdueBy utcHost 1710460800000 (Some (Str ''2024-03-01'')) (Some ''In Progress'') = 14
   \<and> getOverdueBy utcHost 1710460800000 (Some (Str ''2024-03-01'')) (Some ''cancelled '') = 0
   \<and> \<not> isActiveStatus (Some ''cancelled '')"
proof -
  have n: "normalizeStatus (Some ''cancelled '') = Some ''Cancelled''"
    by code_simp
  have l: "toLowerCase ''Cancelled'' \<in> closedStatusesSet"
    by code_simp
  have a: "getOverdueBy utcHost 1710460800000 (Some (Str ''2024-03-01'')) (Some ''In Progress'')
           = 14"
    by code_simp
  from terminal_status_not_overdue
         [of "Some ''cancelled ''" "''Cancelled''" utcHost 1710460800000
             "Some (Str ''2024-03-01'')"] n l a
  show ?thesis
    by blast
qed

section \<open>Dates that do not parse\<close>

lemma foldl_skip: "(\<And>x. f x c = x) \<Longrightarrow> foldl f a (cs @ c # cs') = foldl f a (cs @ cs')"
  by simp

lemma availableYears_skip:
  "parseDateInput rt (dateReceived c) = None \<Longrightarrow>
   availableYears rt (cs @ c # cs') = availableYears rt (cs @ cs')"
  by (simp add: availableYears_def List.map_filter_def)

lemma monthlySummary_skip:
  assumes "parseDateInput rt (dateReceived c) = None"
  shows "monthlySummary rt (cs @ c # cs') y adjs = monthlySummary rt (cs @ cs') y adjs"
proof -
  have "addCase rt y sm c = sm" for sm
    using assms by (simp add: addCase_def)
  then have "foldl (addCase rt y) (initSummaryMap y) (cs @ c # cs') =
      foldl (addCase rt y) (initSummaryMap y) (cs @ cs')"
    by (rule foldl_skip)
  then show ?thesis
    by (simp only: monthlySummary_def)
qed

lemma quarterlySummary_skip:
  assumes "parseDateInput rt (dateReceived c) = None"
  shows "quarterlySummary rt (cs @ c # cs') y = quarterlySummary rt (cs @ cs') y"
proof -
  have "addCaseQ rt y qm c = qm" for qm
    using assms by (simp add: addCaseQ_def)
  then have "foldl (addCaseQ rt y) (initQuarterMap y) (cs @ c # cs') =
      foldl (addCaseQ rt y) (initQuarterMap y) (cs @ cs')"
    by (rule foldl_skip)
  then show ?thesis
    by (simp only: quarterlySummary_def)
qed

lemma categorizedCases_skip:
  assumes "parseDateInput rt (dateReceived c) = None"
  shows "categorizedCases rt (cs @ c # cs') y = categorizedCases rt (cs @ cs') y"
proof -
  have "categorize rt y acc c = acc" for acc
    using assms by (simp add: categorize_def inYear_def)
  then show ?thesis
    unfolding categorizedCases_def by (rule foldl_skip)
qed

lemma addonAnalysis_skip:
  assumes "parseDateInput rt (dateReceived c) = None"
  shows "addonAnalysis rt (cs @ c # cs') y = addonAnalysis rt (cs @ cs') y"
proof -
  have n: "\<not> inYear rt y c"
    using assms by (simp add: inYear_def)
  then have "addonStep rt y acc c = acc" for acc
    by (simp add: addonStep_def)
  then have "foldl (addonStep rt y) a (cs @ c # cs') = foldl (addonStep rt y) a (cs @ cs')" for a
    by (rule foldl_skip)
  moreover have "filter (\<lambda>c. inYear rt y c \<and> hasAddOns c) (cs @ c # cs') =
      filter (\<lambda>c. inYear rt y c \<and> hasAddOns c) (cs @ cs')"
    using n by simp
  ultimately show ?thesis
    by (simp only: addonAnalysis_def)
qed

lemma matrix_skip:
  assumes "parseDateInput rt (dateReceived c) = None"
  shows "matrix rt (cs @ c # cs') y mode = matrix rt (cs @ cs') y mode"
proof -
  have "countCase rt mode y ys acc c = acc" for ys acc
    using assms by (simp add: countCase_def columnIndex_def)
  then have "foldl (countCase rt mode y ys) a (cs @ c # cs') =
      foldl (countCase rt mode y ys) a (cs @ cs')" for ys a
    by (rule foldl_skip)
  then show ?thesis
    by (simp only: matrix_def availableYears_skip [OF assms])
qed

lemma years_skip:
  "parseDateInput rt (dateReceived c) = None \<Longrightarrow>
   List.map_filter (\<lambda>c. map_option getFullYear (parseDateInput rt (dateReceived c)))
     (cs @ c # cs')
   = List.map_filter (\<lambda>c. map_option getFullYear (parseDateInput rt (dateReceived c)))
     (cs @ cs')"
  by (simp add: List.map_filter_def)

lemma inYear_filter_skip:
  "parseDateInput rt (dateReceived c) = None \<Longrightarrow>
   filter (inYear rt y) (cs @ c # cs') = filter (inYear rt y) (cs @ cs')"
  by (simp add: inYear_def)

lemma multiYearSummary_skip:
  assumes "parseDateInput rt (dateReceived c) = None"
  shows "multiYearSummary rt (cs @ c # cs') ys multi cmp adjs
         = multiYearSummary rt (cs @ cs') ys multi cmp adjs"
  by (simp only: multiYearSummary_def monthlySummary_skip [OF assms])

lemma multiYearQuarterly_skip:
  assumes "parseDateInput rt (dateReceived c) = None"
  shows "multiYearQuarterly rt (cs @ c # cs') ys multi cmp
         = multiYearQuarterly rt (cs @ cs') ys multi cmp"
  by (simp only: multiYearQuarterly_def quarterlySummary_skip [OF assms])

lemma multiYearAddonAnalysis_skip:
  assumes "parseDateInput rt (dateReceived c) = None"
  shows "multiYearAddonAnalysis rt (cs @ c # cs') ys multi
         = multiYearAddonAnalysis rt (cs @ cs') ys multi"
  by (simp only: multiYearAddonAnalysis_def addonAnalysis_skip [OF assms])

lemma yearTrend_skip:
  assumes "parseDateInput rt (dateReceived c) = None"
  shows "yearTrend rt (cs @ c # cs') = yearTrend rt (cs @ cs')"
  by (simp only: yearTrend_def availableYears_bm_def years_skip [OF assms]
        inYear_filter_skip [OF assms])

lemma allTeams_skip:
  assumes "parseDateInput rt (dateReceived c) = None"
  shows "allTeams rt (cs @ c # cs') y = allTeams rt (cs @ cs') y"
proof -
  have "addTeamRevenue rt y tr c = tr" for tr
    using assms by (simp add: addTeamRevenue_def split: option.splits)
  then have "foldl (addTeamRevenue rt y) [] (cs @ c # cs') = foldl (addTeamRevenue rt y) [] (cs @ cs')"
    by (rule foldl_skip)
  then show ?thesis
    by (simp only: allTeams_def)
qed

lemma teamMonthlySummary_skip:
  assumes "parseDateInput rt (dateReceived c) = None"
  shows "teamMonthlySummary rt (cs @ c # cs') y = teamMonthlySummary rt (cs @ cs') y"
proof -
  have "addTeamCase rt y sm c = sm" for sm
    using assms by (simp add: addTeamCase_def)
  then have "foldl (addTeamCase rt y) a (cs @ c # cs') = foldl (addTeamCase rt y) a (cs @ cs')"
    for a
    by (rule foldl_skip)
  then show ?thesis
    by (simp only: teamMonthlySummary_def)
qed

lemma teamQuarterlySummary_skip:
  assumes "parseDateInput rt (dateReceived c) = None"
  shows "teamQuarterlySummary rt (cs @ c # cs') y = teamQuarterlySummary rt (cs @ cs') y"
proof -
  have "addTeamCaseQ rt y qm c = qm" for qm
    using assms by (simp add: addTeamCaseQ_def)
  then have "foldl (addTeamCaseQ rt y) a (cs @ c # cs') = foldl (addTeamCaseQ rt y) a (cs @ cs')"
    for a
    by (rule foldl_skip)
  then show ?thesis
    by (simp only: teamQuarterlySummary_def)
qed

lemma teamCaseCount_skip:
  assumes "parseDateInput rt (dateReceived c) = None"
  shows "teamCaseCount rt (cs @ c # cs') y tm = teamCaseCount rt (cs @ cs') y tm"
  using assms by (simp add: teamCaseCount_def inYear_def)

lemma teamYearTable_skip:
  assumes "parseDateInput rt (dateReceived c) = None"
  shows "teamYearTable rt (cs @ c # cs') = teamYearTable rt (cs @ cs')"
  by (simp only: teamYearTable_def availableYears_tm_def years_skip [OF assms]
        inYear_filter_skip [OF assms])

lemma periodAmountMatrix_skip:
  assumes "parseDateInput rt (dateReceived c) = None"
  shows "periodAmountMatrix rt period (cs @ c # cs') y = periodAmountMatrix rt period (cs @ cs') y"
proof -
  have "addPeriodAmount rt period y acc c = acc" for acc
    using assms by (simp add: addPeriodAmount_def Let_def)
  then have "foldl (addPeriodAmount rt period y) a (cs @ c # cs')
      = foldl (addPeriodAmount rt period y) a (cs @ cs')" for a
    by (rule foldl_skip)
  then show ?thesis
    by (simp only: periodAmountMatrix_def)
qed

subsection \<open>The row of the unknown year in the matrix of amounts\<close>

lemma set_insertBy: "set (insertBy cmp x xs) = insert x (set xs)"
  by (induction xs) auto

lemma set_sortBy: "set (sortBy cmp xs) = set xs"
  by (induction xs) (simp_all add: sortBy_def set_insertBy)

lemma keys_ensureKey: "fst ` set (ensureKey k v m) = insert k (fst ` set m)"
  by (auto simp: ensureKey_def map_of_eq_None_iff)

lemma in_map_entry:
  "e \<in> set (AList.map_entry k f xs) \<Longrightarrow> e \<in> set xs \<or> (\<exists>v. (k, v) \<in> set xs \<and> e = (k, f v))"
  by (induction xs) (auto split: if_splits)

lemma map_entry_append_fresh:
  "k \<notin> fst ` set xs \<Longrightarrow> AList.map_entry k f (xs @ [(k, v)]) = xs @ [(k, f v)]"
  by (induction xs) auto

lemma amountMatrix_skip_zero:
  assumes "parseAmount (amount c) = 0"
  shows "amountMatrix rt (cs @ c # cs') = amountMatrix rt (cs @ cs')"
proof -
  have "addAmount rt acc c = acc" for acc
    using assms by (simp add: addAmount_def)
  then have "foldl (addAmount rt) a (cs @ c # cs') = foldl (addAmount rt) a (cs @ cs')" for a
    by (rule foldl_skip)
  then show ?thesis
    by (simp only: amountMatrix_def)
qed

lemma labelled_addAmount: "labelled acc \<Longrightarrow> labelled (addAmount rt acc c)"
proof -
  assume l: "labelled acc"
  show ?thesis
  proof (cases "parseAmount (amount c) = 0")
    case True
    with l show ?thesis by (simp add: addAmount_def)
  next
    case False
    let ?yr = "map_option getFullYear (parseDateInput rt (dateReceived c))"
    let ?init = "\<lparr>am_year = ?yr, regionTotals = [], am_rowTotal = 0\<rparr>"
    have "am_year (snd e) = fst e" if "e \<in> set (ensureKey ?yr ?init (yearMap acc))" for e
      using that l by (auto simp: ensureKey_def labelled_def split: if_splits)
    then show ?thesis
      using False by (auto simp: addAmount_def labelled_def Let_def dest!: in_map_entry)
  qed
qed

lemma labelled_foldl: "labelled acc \<Longrightarrow> labelled (foldl (addAmount rt) acc cs)"
  by (induction cs arbitrary: acc) (simp_all add: labelled_addAmount)

lemma keys_addAmount:
  "k \<in> fst ` set (yearMap acc) \<Longrightarrow> k \<in> fst ` set (yearMap (addAmount rt acc c))"
  by (simp add: addAmount_def Let_def dom_map_entry keys_ensureKey)

lemma keys_foldl_addAmount:
  "k \<in> fst ` set (yearMap acc) \<Longrightarrow> k \<in> fst ` set (yearMap (foldl (addAmount rt) acc cs))"
  by (induction cs arbitrary: acc) (simp_all add: keys_addAmount)

lemma unknown_year_key:
  assumes "parseDateInput rt (dateReceived c) = None" and "parseAmount (amount c) \<noteq> 0"
  shows "None \<in> fst ` set (yearMap (addAmount rt acc c))"
  using assms by (simp add: addAmount_def Let_def dom_map_entry keys_ensureKey)

lemma unknown_year_row_present:
  assumes "parseDateInput rt (dateReceived c) = None" and "parseAmount (amount c) \<noteq> 0"
  shows "\<exists>r\<in>set (am_rows (amountMatrix rt (cs @ c # cs'))). am_year r = None"
proof -
  let ?init = "\<lparr>yearMap = [], columnTotals_am = [], grandTotal_am = 0, extraRegions = []\<rparr>"
  let ?acc = "foldl (addAmount rt) ?init (cs @ c # cs')"
  have "None \<in> fst ` set (yearMap ?acc)"
    using unknown_year_key [OF assms] by (simp add: keys_foldl_addAmount)
  then obtain e where e: "e \<in> set (yearMap ?acc)" "fst e = None"
    by auto
  have "labelled ?acc"
    by (rule labelled_foldl) (simp add: labelled_def)
  with e have "am_year (snd e) = None"
    by (simp add: labelled_def)
  moreover from e have "snd e \<in> set (am_rows (amountMatrix rt (cs @ c # cs')))"
    by (simp add: amountMatrix_def Let_def set_sortBy)
  ultimately show ?thesis
    by blast
qed

lemma amountMatrix_grandTotal_last:
  assumes "parseAmount (amount c) \<noteq> 0"
  shows "am_grandTotal (amountMatrix rt (cs @ [c]))
         = fadd (am_grandTotal (amountMatrix rt cs)) (parseAmount (amount c))"
  using assms by (simp add: amountMatrix_def Let_def addAmount_def)

lemma unknown_year_row_fresh:
  assumes "parseDateInput rt (dateReceived c) = None" and "parseAmount (amount c) \<noteq> 0"
    and "\<forall>r\<in>set (am_rows (amountMatrix rt cs)). am_year r \<noteq> None"
  shows "\<lparr>am_year = None,
          regionTotals = [(regionOf c, fadd 0 (parseAmount (amount c)))],
          am_rowTotal = fadd 0 (parseAmount (amount c))\<rparr>
         \<in> set (am_rows (amountMatrix rt (cs @ [c])))"
proof -
  let ?init = "\<lparr>yearMap = [], columnTotals_am = [], grandTotal_am = 0, extraRegions = []\<rparr>"
  let ?acc = "foldl (addAmount rt) ?init cs"
  have l: "labelled ?acc"
    by (rule labelled_foldl) (simp add: labelled_def)
  have fresh: "None \<notin> fst ` set (yearMap ?acc)"
  proof
    assume "None \<in> fst ` set (yearMap ?acc)"
    then obtain e where e: "e \<in> set (yearMap ?acc)" "fst e = None"
      by auto
    with l have "am_year (snd e) = None"
      by (simp add: labelled_def)
    moreover from e have "snd e \<in> set (am_rows (amountMatrix rt cs))"
      by (simp add: amountMatrix_def Let_def set_sortBy)
    ultimately show False
      using assms(3) by blast
  qed
  then have "map_of (yearMap ?acc) None = None"
    by (simp add: map_of_eq_None_iff)
  with fresh assms(1,2)
  have "yearMap (addAmount rt ?acc c) = yearMap ?acc
      @ [(None, \<lparr>am_year = None,
                 regionTotals = [(regionOf c, fadd 0 (parseAmount (amount c)))],
                 am_rowTotal = fadd 0 (parseAmount (amount c))\<rparr>)]"
    by (simp add: addAmount_def Let_def ensureKey_def map_entry_append_fresh)
  then show ?thesis
    by (simp add: amountMatrix_def Let_def set_sortBy)
qed

text \<open>
  C10, as stated, fails in its last part: the yearly matrix of amounts does not leave
  out a case whose date does not parse.  A case with the date received "NA" and the
  amount "50000" is counted in the row of the unknown year.
\<close>

theorem unparsed_date_in_amountMatrix_counterexample:
  "parseDateInput utcHost
     (dateReceived (blankCase\<lparr>dateReceived := Some (Str ''NA''), amount := Some ''50000''\<rparr>))
     = None
   \<and> am_rows (amountMatrix utcHost
        [blankCase\<lparr>dateReceived := Some (Str ''NA''), amount := Some ''50000''\<rparr>])
     = [\<lparr>am_year = None, regionTotals = [(''(Unassigned Region)'', 50000)],
         am_rowTotal = 50000\<rparr>]
   \<and> am_grandTotal (amountMatrix utcHost
        [blankCase\<lparr>dateReceived := Some (Str ''NA''), amount := Some ''50000''\<rparr>])
     = 50000
   \<and> am_rows (amountMatrix utcHost []) = []"
  by code_simp

text \<open>
  C10, amended.  \<open>parseDateInput\<close> gives \<open>null\<close>, and never an invalid date, for an
  absent value, for a string that is empty or white space, for "NA" and "N/A" in any
  letter case (with or without white space around), and for a string that the host does
  not read as a date.  A case whose date received gives \<open>null\<close> is left out of every
  aggregation over time but one; each of these is what it is without the case:
  \<^item> in \<open>BillingManager\<close> the monthly and the quarterly summary, the three summaries over
    several years, the add-on analysis, the three categories, the available years and
    the year-over-year table;
  \<^item> in \<open>TeamManager\<close> the ranking of the teams, the monthly and the quarterly summary,
    the available years, the count of cases of a team and the year-over-year table;
  \<^item> in \<open>CaseMatrix\<close> the year options, the office matrix in its three views, and the
    matrices of amounts by quarter and by month.

  The one exception is the yearly matrix of amounts.  It drops such a case when its
  amount parses to 0, as it drops every case without an amount.  When the amount is
  not 0 the case is kept: the output has a row of the unknown year (the label "NA"),
  the amount of a case that comes last is added to the grand total, and, when no row of
  the unknown year was there before, that row holds the amount of the case alone.
\<close>

theorem parseDateInput_null:
  "parseDateInput rt None = None
   \<and> (trim s = [] \<longrightarrow> parseDateInput rt (Some (Str s)) = None)
   \<and> (toLowerCase (trim s) = ''na'' \<or> toLowerCase (trim s) = ''n/a''
        \<longrightarrow> parseDateInput rt (Some (Str s)) = None)
   \<and> (Date_parse rt (trim s) = None \<longrightarrow> parseDateInput rt (Some (Str s)) = None)
   \<and> (parseDateInput rt (dateReceived c) = None \<longrightarrow>
        monthlySummary rt (cs @ c # cs') y adjs = monthlySummary rt (cs @ cs') y adjs
        \<and> quarterlySummary rt (cs @ c # cs') y = quarterlySummary rt (cs @ cs') y
        \<and> multiYearSummary rt (cs @ c # cs') ys multi cmp adjs
            = multiYearSummary rt (cs @ cs') ys multi cmp adjs
        \<and> multiYearQuarterly rt (cs @ c # cs') ys multi cmp
            = multiYearQuarterly rt (cs @ cs') ys multi cmp
        \<and> multiYearAddonAnalysis rt (cs @ c # cs') ys multi
            = multiYearAddonAnalysis rt (cs @ cs') ys multi
        \<and> addonAnalysis rt (cs @ c # cs') y = addonAnalysis rt (cs @ cs') y
        \<and> categorizedCases rt (cs @ c # cs') y = categorizedCases rt (cs @ cs') y
        \<and> availableYears_bm rt (cs @ c # cs') = availableYears_bm rt (cs @ cs')
        \<and> yearTrend rt (cs @ c # cs') = yearTrend rt (cs @ cs')
        \<and> allTeams rt (cs @ c # cs') y = allTeams rt (cs @ cs') y
        \<and> teamMonthlySummary rt (cs @ c # cs') y = teamMonthlySummary rt (cs @ cs') y
        \<and> teamQuarterlySummary rt (cs @ c # cs') y = teamQuarterlySummary rt (cs @ cs') y
        \<and> availableYears_tm rt (cs @ c # cs') = availableYears_tm rt (cs @ cs')
        \<and> teamCaseCount rt (cs @ c # cs') y tm = teamCaseCount rt (cs @ cs') y tm
        \<and> teamYearTable rt (cs @ c # cs') = teamYearTable rt (cs @ cs')
        \<and> yearOptions rt (cs @ c # cs') = yearOptions rt (cs @ cs')
        \<and> matrix rt (cs @ c # cs') y mode = matrix rt (cs @ cs') y mode
        \<and> quarterlyAmountMatrix rt (cs @ c # cs') y = quarterlyAmountMatrix rt (cs @ cs') y
        \<and> monthlyAmountMatrix rt (cs @ c # cs') y = monthlyAmountMatrix rt (cs @ cs') y
        \<and> (parseAmount (amount c) = 0
             \<longrightarrow> amountMatrix rt (cs @ c # cs') = amountMatrix rt (cs @ cs'))
        \<and> (parseAmount (amount c) \<noteq> 0
             \<longrightarrow> (\<exists>r\<in>set (am_rows (amountMatrix rt (cs @ c # cs'))). am_year r = None)
                 \<and> am_grandTotal (amountMatrix rt (cs @ [c]))
                     = fadd (am_grandTotal (amountMatrix rt cs)) (parseAmount (amount c))
                 \<and> ((\<forall>r\<in>set (am_rows (amountMatrix rt cs)). am_year r \<noteq> None)
                      \<longrightarrow> \<lparr>am_year = None,
                            regionTotals = [(regionOf c, fadd 0 (parseAmount (amount c)))],
                            am_rowTotal = fadd 0 (parseAmount (amount c))\<rparr>
                           \<in> set (am_rows (amountMatrix rt (cs @ [c]))))))"
proof (intro conjI impI)
  show "parseDateInput rt None = None"
    by (simp add: parseDateInput_def)
  show "parseDateInput rt (Some (Str s)) = None" if "trim s = []"
    using that by (simp add: parseDateInput_def)
  show "parseDateInput rt (Some (Str s)) = None"
    if "toLowerCase (trim s) = ''na'' \<or> toLowerCase (trim s) = ''n/a''"
    using that by (auto simp: parseDateInput_def Let_def)
  show "parseDateInput rt (Some (Str s)) = None" if "Date_parse rt (trim s) = None"
    using that by (simp add: parseDateInput_def Let_def)
next
  assume n: "parseDateInput rt (dateReceived c) = None"
  show "monthlySummary rt (cs @ c # cs') y adjs = monthlySummary rt (cs @ cs') y adjs"
    by (rule monthlySummary_skip [OF n])
  show "quarterlySummary rt (cs @ c # cs') y = quarterlySummary rt (cs @ cs') y"
    by (rule quarterlySummary_skip [OF n])
  show "multiYearSummary rt (cs @ c # cs') ys multi cmp adjs
      = multiYearSummary rt (cs @ cs') ys multi cmp adjs"
    by (rule multiYearSummary_skip [OF n])
  show "multiYearQuarterly rt (cs @ c # cs') ys multi cmp
      = multiYearQuarterly rt (cs @ cs') ys multi cmp"
    by (rule multiYearQuarterly_skip [OF n])
  show "multiYearAddonAnalysis rt (cs @ c # cs') ys multi
      = multiYearAddonAnalysis rt (cs @ cs') ys multi"
    by (rule multiYearAddonAnalysis_skip [OF n])
  show "addonAnalysis rt (cs @ c # cs') y = addonAnalysis rt (cs @ cs') y"
    by (rule addonAnalysis_skip [OF n])
  show "categorizedCases rt (cs @ c # cs') y = categorizedCases rt (cs @ cs') y"
    by (rule categorizedCases_skip [OF n])
  show "availableYears_bm rt (cs @ c # cs') = availableYears_bm rt (cs @ cs')"
    by (simp only: availableYears_bm_def years_skip [OF n])
  show "yearTrend rt (cs @ c # cs') = yearTrend rt (cs @ cs')"
    by (rule yearTrend_skip [OF n])
  show "allTeams rt (cs @ c # cs') y = allTeams rt (cs @ cs') y"
    by (rule allTeams_skip [OF n])
  show "teamMonthlySummary rt (cs @ c # cs') y = teamMonthlySummary rt (cs @ cs') y"
    by (rule teamMonthlySummary_skip [OF n])
  show "teamQuarterlySummary rt (cs @ c # cs') y = teamQuarterlySummary rt (cs @ cs') y"
    by (rule teamQuarterlySummary_skip [OF n])
  show "availableYears_tm rt (cs @ c # cs') = availableYears_tm rt (cs @ cs')"
    by (simp only: availableYears_tm_def years_skip [OF n])
  show "teamCaseCount rt (cs @ c # cs') y tm = teamCaseCount rt (cs @ cs') y tm"
    by (rule teamCaseCount_skip [OF n])
  show "teamYearTable rt (cs @ c # cs') = teamYearTable rt (cs @ cs')"
    by (rule teamYearTable_skip [OF n])
  show "yearOptions rt (cs @ c # cs') = yearOptions rt (cs @ cs')"
    by (simp only: yearOptions_def years_skip [OF n])
  show "matrix rt (cs @ c # cs') y mode = matrix rt (cs @ cs') y mode"
    by (rule matrix_skip [OF n])
  show "quarterlyAmountMatrix rt (cs @ c # cs') y = quarterlyAmountMatrix rt (cs @ cs') y"
    by (simp only: quarterlyAmountMatrix_def periodAmountMatrix_skip [OF n])
  show "monthlyAmountMatrix rt (cs @ c # cs') y = monthlyAmountMatrix rt (cs @ cs') y"
    by (simp only: monthlyAmountMatrix_def periodAmountMatrix_skip [OF n])
  show "amountMatrix rt (cs @ c # cs') = amountMatrix rt (cs @ cs')"
    if "parseAmount (amount c) = 0"
    by (rule amountMatrix_skip_zero [OF that])
  show "\<exists>r\<in>set (am_rows (amountMatrix rt (cs @ c # cs'))). am_year r = None"
    if "parseAmount (amount c) \<noteq> 0"
    by (rule unknown_year_row_present [OF n that])
  show "am_grandTotal (amountMatrix rt (cs @ [c]))
      = fadd (am_grandTotal (amountMatrix rt cs)) (parseAmount (amount c))"
    if "parseAmount (amount c) \<noteq> 0"
    by (rule amountMatrix_grandTotal_last [OF that])
  show "\<lparr>am_year = None,
         regionTotals = [(regionOf c, fadd 0 (parseAmount (amount c)))],
         am_rowTotal = fadd 0 (parseAmount (amount c))\<rparr>
        \<in> set (am_rows (amountMatrix rt (cs @ [c])))"
    if "parseAmount (amount c) \<noteq> 0"
      and "\<forall>r\<in>set (am_rows (amountMatrix rt cs)). am_year r \<noteq> None"
    by (rule unknown_year_row_fresh [OF n that])
qed

text \<open>
  The string " n/A " on the UTC host, and a case carrying it, with the amount "700",
  after the March 2024 case of the first scenario: the monthly summary and the matrix of
  amounts by quarter are those of the March case alone, and the yearly matrix of amounts
  has the row of the unknown year with 700.
\<close>

theorem parseDateInput_null_witness:
  "parseDateInput utcHost (Some (Str '' n/A '')) = None
   \<and> parseDateInput utcHost (Some (Str ''   '')) = None
   \<and> parseDateInput utcHost (Some (Str ''next week'')) = None
   \<and> monthlySummary utcHost
       [blankCase\<lparr>dateReceived := Some (Str ''2024-03-15''), type := Some ''Full'',
                  amount := Some ''50000''\<rparr>,
        blankCase\<lparr>dateReceived := Some (Str '' n/A ''), type := Some ''Full'',
                  amount := Some ''700''\<rparr>] 2024 []
     = monthlySummary utcHost
       [blankCase\<lparr>dateReceived := Some (Str ''2024-03-15''), type := Some ''Full'',
                  amount := Some ''50000''\<rparr>] 2024 []
   \<and> quarterlyAmountMatrix utcHost
       [blankCase\<lparr>dateReceived := Some (Str ''2024-03-15''), type := Some ''Full'',
                  amount := Some ''50000''\<rparr>,
        blankCase\<lparr>dateReceived := Some (Str '' n/A ''), type := Some ''Full'',
                  amount := Some ''700''\<rparr>] 2024
     = quarterlyAmountMatrix utcHost
       [blankCase\<lparr>dateReceived := Some (Str ''2024-03-15''), type := Some ''Full'',
                  amount := Some ''50000''\<rparr>] 2024
   \<and> \<lparr>am_year = None, regionTotals = [(''(Unassigned Region)'', 700)], am_rowTotal = 700\<rparr>
       \<in> set (am_rows (amountMatrix utcHost
           [blankCase\<lparr>dateReceived := Some (Str ''2024-03-15''), type := Some ''Full'',
                      amount := Some ''50000''\<rparr>,
            blankCase\<lparr>dateReceived := Some (Str '' n/A ''), type := Some ''Full'',
                      amount := Some ''700''\<rparr>]))"
proof -
  let ?c1 = "blankCase\<lparr>dateReceived := Some (Str ''2024-03-15''), type := Some ''Full'',
                        amount := Some ''50000''\<rparr>"
  let ?c2 = "blankCase\<lparr>dateReceived := Some (Str '' n/A ''), type := Some ''Full'',
                        amount := Some ''700''\<rparr>"
  have na: "toLowerCase (trim '' n/A '') = ''na'' \<or> toLowerCase (trim '' n/A '') = ''n/a''"
    by code_simp
  have blank: "trim ''   '' = []"
    by code_simp
  have bad: "Date_parse utcHost (trim ''next week'') = None"
    by code_simp
  have amt: "parseAmount (amount ?c2) = 700"
    by code_simp
  have f: "fadd 0 700 = 700"
    by code_simp
  have reg: "regionOf ?c2 = ''(Unassigned Region)''"
    by code_simp
  have before: "\<forall>r\<in>set (am_rows (amountMatrix utcHost [?c1])). am_year r \<noteq> None"
    by code_simp
  note t1 = parseDateInput_null
    [where rt = utcHost and s = "'' n/A ''" and c = ?c2 and cs = "[?c1]" and cs' = "[]"
       and y = 2024 and adjs = "[]"]
  note t2 = parseDateInput_null [where rt = utcHost and s = "''   ''"]
  note t3 = parseDateInput_null [where rt = utcHost and s = "''next week''"]
  from t1 na have p1: "parseDateInput utcHost (Some (Str '' n/A '')) = None"
    by blast
  then have p2: "parseDateInput utcHost (dateReceived ?c2) = None"
    by simp
  from t1 p2 have "monthlySummary utcHost ([?c1] @ ?c2 # []) 2024 [] =
      monthlySummary utcHost ([?c1] @ []) 2024 []"
    by blast
  then have m: "monthlySummary utcHost [?c1, ?c2] 2024 [] = monthlySummary utcHost [?c1] 2024 []"
    by (simp only: append.simps)
  from t1 p2 have "quarterlyAmountMatrix utcHost ([?c1] @ ?c2 # []) 2024 =
      quarterlyAmountMatrix utcHost ([?c1] @ []) 2024"
    by blast
  then have q: "quarterlyAmountMatrix utcHost [?c1, ?c2] 2024
      = quarterlyAmountMatrix utcHost [?c1] 2024"
    by (simp only: append.simps)
  have nz: "parseAmount (amount ?c2) \<noteq> 0"
    by (simp only: amt)
  from t1 p2 nz before
  have "\<lparr>am_year = None, regionTotals = [(regionOf ?c2, fadd 0 (parseAmount (amount ?c2)))],
          am_rowTotal = fadd 0 (parseAmount (amount ?c2))\<rparr>
        \<in> set (am_rows (amountMatrix utcHost ([?c1] @ [?c2])))"
    by blast
  then have row: "\<lparr>am_year = None, regionTotals = [(''(Unassigned Region)'', 700)],
          am_rowTotal = 700\<rparr> \<in> set (am_rows (amountMatrix utcHost [?c1, ?c2]))"
    by (simp only: amt f reg append.simps)
  from t2 blank have b: "parseDateInput utcHost (Some (Str ''   '')) = None"
    by blast
  from t3 bad have w: "parseDateInput utcHost (Some (Str ''next week'')) = None"
    by blast
  from p1 b w m q row show ?thesis
    by (intro conjI)
qed

end
